theory Spec2Isabelle
  imports Complex_Main "HOL-Library.Sublist"
begin

section \<open>Strings and POSIX paths\<close>

text \<open>
  A JavaScript string is modelled as a \<^typ>\<open>string\<close>: the list of the bytes of its UTF-8
  encoding. Splitting at an ASCII character, joining and \<open>startsWith\<close> act on the bytes
  as they act on the string.

  The white space and line terminators of the language, each as the bytes of its encoding:
  U+0009 to U+000D, U+0020, U+00A0, U+1680, U+2000 to U+200A, U+2028, U+2029, U+202F,
  U+205F, U+3000 and U+FEFF.
\<close>

definition whiteSpace :: "string list" where
  "whiteSpace =
     [[CHR 0x09], [CHR 0x0A], [CHR 0x0B], [CHR 0x0C], [CHR 0x0D], [CHR 0x20],
      [CHR 0xC2, CHR 0xA0],
      [CHR 0xE1, CHR 0x9A, CHR 0x80],
      [CHR 0xE2, CHR 0x80, CHR 0x80], [CHR 0xE2, CHR 0x80, CHR 0x81],
      [CHR 0xE2, CHR 0x80, CHR 0x82], [CHR 0xE2, CHR 0x80, CHR 0x83],
      [CHR 0xE2, CHR 0x80, CHR 0x84], [CHR 0xE2, CHR 0x80, CHR 0x85],
      [CHR 0xE2, CHR 0x80, CHR 0x86], [CHR 0xE2, CHR 0x80, CHR 0x87],
      [CHR 0xE2, CHR 0x80, CHR 0x88], [CHR 0xE2, CHR 0x80, CHR 0x89],
      [CHR 0xE2, CHR 0x80, CHR 0x8A],
      [CHR 0xE2, CHR 0x80, CHR 0xA8], [CHR 0xE2, CHR 0x80, CHR 0xA9],
      [CHR 0xE2, CHR 0x80, CHR 0xAF],
      [CHR 0xE2, CHR 0x81, CHR 0x9F],
      [CHR 0xE3, CHR 0x80, CHR 0x80],
      [CHR 0xEF, CHR 0xBB, CHR 0xBF]]"

definition leadingWhiteSpace :: "string \<Rightarrow> string option" where
  "leadingWhiteSpace s = find (\<lambda>t. prefix t s) whiteSpace"

definition trailingWhiteSpace :: "string \<Rightarrow> string option" where
  "trailingWhiteSpace s = find (\<lambda>t. suffix t s) whiteSpace"

text \<open>
  \<open>String.prototype.trim\<close> removes the white space at both ends, one character after
  the other.
\<close>

function trimStart :: "string \<Rightarrow> string" where
  "trimStart s =
     (case leadingWhiteSpace s of
        None \<Rightarrow> s
      | Some t \<Rightarrow> trimStart (drop (length t) s))"
  by pat_completeness auto
termination
proof (relation "measure length")
  show "wf (measure length)" by simp
next
  fix s t :: string
  assume "leadingWhiteSpace s = Some t"
  then have "t \<in> set whiteSpace" and "prefix t s"
    by (auto simp add: leadingWhiteSpace_def find_Some_iff)
  then have "t \<noteq> []" and "length t \<le> length s"
    by (auto simp add: whiteSpace_def prefix_length_le)
  then show "(drop (length t) s, s) \<in> measure length"
    by (cases t) auto
qed

function trimEnd :: "string \<Rightarrow> string" where
  "trimEnd s =
     (case trailingWhiteSpace s of
        None \<Rightarrow> s
      | Some t \<Rightarrow> trimEnd (take (length s - length t) s))"
  by pat_completeness auto
termination
proof (relation "measure length")
  show "wf (measure length)" by simp
next
  fix s t :: string
  assume "trailingWhiteSpace s = Some t"
  then have "t \<in> set whiteSpace" and "suffix t s"
    by (auto simp add: trailingWhiteSpace_def find_Some_iff)
  then have "t \<noteq> []" and "length t \<le> length s"
    by (auto simp add: whiteSpace_def suffix_length_le)
  then show "(take (length s - length t) s, s) \<in> measure length"
    by (cases t) auto
qed

declare trimStart.simps [simp del]
declare trimEnd.simps [simp del]

definition trim :: "string \<Rightarrow> string" where
  "trim s = trimEnd (trimStart s)"

text \<open>
  \<open>s.split(c)\<close> for a one-character separator: the pieces between the separators,
  empty pieces included; the empty string splits into one empty piece.
\<close>

fun split_on :: "char \<Rightarrow> string \<Rightarrow> string list" where
  "split_on c [] = [[]]"
| "split_on c (x # xs) =
     (if x = c then [] # split_on c xs
      else (case split_on c xs of
              [] \<Rightarrow> [[x]]
            | piece # pieces \<Rightarrow> (x # piece) # pieces))"

text \<open>\<open>Array.prototype.join\<close> on strings.\<close>

fun join_with :: "string \<Rightarrow> string list \<Rightarrow> string" where
  "join_with sep [] = []"
| "join_with sep [s] = s"
| "join_with sep (s # t # ss) = s @ sep @ join_with sep (t # ss)"

text \<open>
  Node's \<open>normalizeString(path, allowAboveRoot, '/', isPosixPathSeparator)\<close>, segment by
  segment: an empty segment and \<open>.\<close> are dropped; \<open>..\<close> removes the last segment kept so
  far, unless there is none or it is itself \<open>..\<close>, in which case \<open>..\<close> is kept only when
  \<open>allowAboveRoot\<close> holds; every other segment is appended. The result is the kept
  segments joined by \<open>/\<close>.
\<close>

definition normalizeStep :: "bool \<Rightarrow> string list \<Rightarrow> string \<Rightarrow> string list" where
  "normalizeStep allowAboveRoot res seg =
     (if seg = [] \<or> seg = ''.'' then res
      else if seg = ''..'' then
        (if res \<noteq> [] \<and> last res \<noteq> ''..'' then butlast res
         else if allowAboveRoot then res @ [''..''] else res)
      else res @ [seg])"

definition normalizeSegments :: "bool \<Rightarrow> string \<Rightarrow> string list" where
  "normalizeSegments allowAboveRoot path =
     foldl (normalizeStep allowAboveRoot) [] (split_on CHR ''/'' path)"

definition normalizeString :: "string \<Rightarrow> bool \<Rightarrow> string" where
  "normalizeString path allowAboveRoot =
     join_with ''/'' (normalizeSegments allowAboveRoot path)"

text \<open>
  The failures that the tools raise or let through: \<open>new Error(message)\<close>; a system error
  with its \<open>code\<close> (such as \<open>ENOENT\<close>) and message, raised by \<open>fs\<close> and by
  \<open>process.cwd()\<close>; the \<open>ZodError\<close> of schema validation with its issues (code, path of
  the offending field, what was received); the \<open>SyntaxError\<close> of \<open>new RegExp\<close>.
\<close>

datatype zod_issue =
  ZodIssue (issue_code: string) (issue_path: "string list") (issue_received: string)

datatype js_error =
    JsError string
  | SystemError string string
  | ZodError "zod_issue list"
  | SyntaxError string

text \<open>
  \<open>path.resolve(p)\<close> of Node's POSIX \<open>path\<close> module with one argument. The loop of the
  library runs from the argument to the working directory, skipping an empty entry and
  stopping once the accumulated path is absolute: \<open>process.cwd()\<close> is called only when
  the argument is empty or relative. The call fails when the working directory is gone
  (\<open>ENOENT\<close>, \<open>uv_cwd\<close>); its outcome is the parameter \<open>cwd\<close>.
\<close>

definition resolve :: "js_error + string \<Rightarrow> string \<Rightarrow> js_error + string" where
  "resolve cwd p =
     (let (resolvedPath, resolvedAbsolute) =
            (if p = [] then ([], False) else (p @ ''/'', hd p = CHR ''/''))
      in if resolvedAbsolute then Inr (''/'' @ normalizeString resolvedPath False)
         else case cwd of
           Inl e \<Rightarrow> Inl e
         | Inr c \<Rightarrow>
             (let (resolvedPath, resolvedAbsolute) =
                    (if c = [] then (resolvedPath, False)
                     else (c @ ''/'' @ resolvedPath, hd c = CHR ''/''));
                  resolvedPath = normalizeString resolvedPath (\<not> resolvedAbsolute)
              in Inr (if resolvedAbsolute then ''/'' @ resolvedPath
                      else if resolvedPath \<noteq> [] then resolvedPath else ''.'')))"

text \<open>
  The text that \<open>path.resolve\<close> normalises when the working directory is absolute:
  the argument itself when it is absolute, the working directory followed by the argument
  otherwise.
\<close>

definition absolute_input :: "string \<Rightarrow> string \<Rightarrow> string" where
  "absolute_input cwd p = (if hd p = CHR ''/'' then p else cwd @ ''/'' @ p)"

text \<open>
  \<open>path.normalize\<close> and \<open>path.join\<close> (two arguments) of the same module.
\<close>

definition normalize_path :: "string \<Rightarrow> string" where
  "normalize_path p =
     (if p = [] then ''.''
      else
        let isAbsolute = (hd p = CHR ''/'');
            trailingSeparator = (last p = CHR ''/'');
            q = normalizeString p (\<not> isAbsolute)
        in if q = [] then (if isAbsolute then ''/'' else if trailingSeparator then ''./'' else ''.'')
           else let q = (if trailingSeparator then q @ ''/'' else q)
                in if isAbsolute then ''/'' @ q else q)"

definition path_join :: "string \<Rightarrow> string \<Rightarrow> string" where
  "path_join a b =
     (let joined = (if a = [] then b else if b = [] then a else a @ ''/'' @ b)
      in if joined = [] then ''.'' else normalize_path joined)"

section \<open>Values, errors and the host\<close>

text \<open>
  JavaScript values that cross the tool boundary: the argument object of a call and the
  object a tool returns. A number is an exact rational (every finite double is one; NaN
  and the infinities are not represented). An object is the list of its properties in
  insertion order, with distinct keys.
\<close>

datatype json =
    JUndefined
  | JNull
  | JBool bool
  | JNum rat
  | JStr string
  | JArr "json list"
  | JObj "(string \<times> json) list"

type_synonym obj = "(string \<times> json) list"

definition obj_get :: "json \<Rightarrow> string \<Rightarrow> json option" where
  "obj_get j k = (case j of JObj kvs \<Rightarrow> map_of kvs k | _ \<Rightarrow> None)"

text \<open>Assignment to a key (of an object, of a \<open>Map\<close>), and the spread \<open>{...base, ...extra}\<close> of object literals.\<close>

fun assoc_set :: "('k \<times> 'v) list \<Rightarrow> 'k \<Rightarrow> 'v \<Rightarrow> ('k \<times> 'v) list" where
  "assoc_set [] k v = [(k, v)]"
| "assoc_set ((k', v') # kvs) k v =
     (if k' = k then (k, v) # kvs else (k', v') # assoc_set kvs k v)"

definition obj_spread :: "obj \<Rightarrow> obj \<Rightarrow> obj" where
  "obj_spread base extra = foldl (\<lambda>acc (k, v). assoc_set acc k v) base extra"

text \<open>Truthiness of a value (\<open>!x\<close>, \<open>x || y\<close>).\<close>

fun falsy :: "json \<Rightarrow> bool" where
  "falsy JUndefined = True"
| "falsy JNull = True"
| "falsy (JBool b) = (\<not> b)"
| "falsy (JNum n) = (n = 0)"
| "falsy (JStr s) = (s = [])"
| "falsy (JArr _) = False"
| "falsy (JObj _) = False"

text \<open>
  Library functions whose results are only passed on: the text of a \<open>ZodError\<close>'s
  \<open>message\<close>, \<open>JSON.stringify(v, null, 2)\<close>, regular expressions (with flag \<open>i\<close>),
  base64 encoding, case conversion, the length of a string and its reversal (both count
  UTF-16 code units), \<open>Number::toString\<close> of a number from \<open>1e21\<close> on (exponent
  notation), and \<open>path.relative\<close>, \<open>path.extname\<close>, \<open>path.parse\<close>.
\<close>

record lib =
  zod_message :: "zod_issue list \<Rightarrow> string"
  json_stringify :: "json \<Rightarrow> string"
  regex_valid :: "string \<Rightarrow> bool"
  regex_error :: "string \<Rightarrow> string"
  regex_test :: "string \<Rightarrow> string \<Rightarrow> bool"
  base64 :: "string \<Rightarrow> string"
  toUpperCase :: "string \<Rightarrow> string"
  toLowerCase :: "string \<Rightarrow> string"
  string_length :: "string \<Rightarrow> nat"
  string_reverse :: "string \<Rightarrow> string"
  number_toString :: "rat \<Rightarrow> string"
  path_relative :: "string \<Rightarrow> string \<Rightarrow> string"
  path_extname :: "string \<Rightarrow> string"
  path_parse_name :: "string \<Rightarrow> string"
  path_parse_ext :: "string \<Rightarrow> string"
  path_parse_dir :: "string \<Rightarrow> string"

fun error_message :: "lib \<Rightarrow> js_error \<Rightarrow> string" where
  "error_message l (JsError m) = m"
| "error_message l (SystemError c m) = m"
| "error_message l (ZodError issues) = zod_message l issues"
| "error_message l (SyntaxError m) = m"

fun error_code :: "js_error \<Rightarrow> json" where
  "error_code (SystemError c m) = JStr c"
| "error_code _ = JUndefined"

fun error_constructor_name :: "js_error \<Rightarrow> string" where
  "error_constructor_name (JsError m) = ''Error''"
| "error_constructor_name (SystemError c m) = ''Error''"
| "error_constructor_name (ZodError issues) = ''ZodError''"
| "error_constructor_name (SyntaxError m) = ''SyntaxError''"

text \<open>
  What \<open>fs.stat\<close> and \<open>fs.readdir(..., {withFileTypes: true})\<close> return. Times are kept as
  the ISO-8601 text that \<open>toISOString()\<close> gives.
\<close>

record stats =
  st_size :: nat
  st_isFile :: bool
  st_isDirectory :: bool
  st_isSymbolicLink :: bool
  st_mode :: nat
  st_mtime :: string
  st_birthtime :: string
  st_atime :: string
  st_blocks :: nat
  st_blksize :: nat

record dirent =
  d_name :: string
  d_isDirectory :: bool
  d_isFile :: bool

text \<open>
  The state of the process that the tools read: the environment variable
  \<open>ALLOWED_PATHS\<close>, the outcome of \<open>process.cwd()\<close> (the working directory, or the
  failure when it is gone), the file system (each call either fails with a
  \<^typ>\<open>js_error\<close> or returns) and the clock (\<open>new Date().toISOString()\<close> and the
  milliseconds between two readings of \<open>Date.now()\<close>). The tools only read this state.
\<close>

record world =
  ALLOWED_PATHS :: "string option"
  process_cwd :: "js_error + string"
  fs_stat :: "string \<Rightarrow> js_error + stats"
  fs_readdir :: "string \<Rightarrow> js_error + dirent list"
  fs_readFile :: "string \<Rightarrow> js_error + string"
  now_iso :: string
  elapsed_ms :: nat

section \<open>Number formatting\<close>

definition digit_char :: "nat \<Rightarrow> char" where
  "digit_char d = ''0123456789abcdef'' ! d"

text \<open>\<open>n.toString(b)\<close> for a natural number and a base from 2 to 16.\<close>

function show_nat_base :: "nat \<Rightarrow> nat \<Rightarrow> string" where
  "show_nat_base b n =
     (if b < 2 \<or> n < b then [digit_char n]
      else show_nat_base b (n div b) @ [digit_char (n mod b)])"
  by pat_completeness auto
termination
  by (relation "measure snd") auto

text \<open>
  The text of a natural number in a template literal: its decimal digits below \<open>1e21\<close>,
  \<open>Number::toString\<close> from there on.
\<close>

definition show_number :: "lib \<Rightarrow> nat \<Rightarrow> string" where
  "show_number l n =
     (if n < 10 ^ 21 then show_nat_base 10 n else number_toString l (of_nat n))"

text \<open>
  \<open>x.toFixed(2)\<close>: the sign, then for \<open>\<bar>x\<bar>\<close> below \<open>1e21\<close> the integer \<open>n\<close> with
  \<open>n / 100\<close> nearest to \<open>\<bar>x\<bar>\<close>, the larger one at a tie, printed with two decimals,
  and \<open>Number::toString\<close> of \<open>\<bar>x\<bar>\<close> from \<open>1e21\<close> on.
\<close>

definition toFixed2 :: "lib \<Rightarrow> rat \<Rightarrow> string" where
  "toFixed2 l x =
     (let n = nat \<lfloor>\<bar>x\<bar> * 100 + 1 / 2\<rfloor>
      in (if x < 0 then ''-'' else [])
         @ (if \<bar>x\<bar> \<ge> 10 ^ 21 then number_toString l \<bar>x\<bar>
            else show_nat_base 10 (n div 100) @ ''.''
                 @ [digit_char (n mod 100 div 10), digit_char (n mod 10)]))"

text \<open>
  \<open>formatSize\<close>: the loop divides by 1024 while the value is at least 1024 and a larger
  unit is left; the recursion runs along the list of units. Division of a double by 1024
  is exact, so the value is the exact quotient.
\<close>

fun formatSize_loop :: "rat \<Rightarrow> string list \<Rightarrow> rat \<times> string" where
  "formatSize_loop sz [] = (sz, [])"
| "formatSize_loop sz [u] = (sz, u)"
| "formatSize_loop sz (u # v # us) =
     (if sz \<ge> 1024 then formatSize_loop (sz / 1024) (v # us) else (sz, u))"

definition formatSize :: "lib \<Rightarrow> rat \<Rightarrow> string" where
  "formatSize l bytes =
     (let (sz, unit) = formatSize_loop bytes [''B'', ''KB'', ''MB'', ''GB'']
      in toFixed2 l sz @ '' '' @ unit)"

text \<open>\<open>formatFileSize\<close> of the example tool: the same loop with one more unit.\<close>

definition formatFileSize :: "lib \<Rightarrow> rat \<Rightarrow> string" where
  "formatFileSize l bytes =
     (let (sz, unit) = formatSize_loop bytes [''B'', ''KB'', ''MB'', ''GB'', ''TB'']
      in toFixed2 l sz @ '' '' @ unit)"

section \<open>Path Guard\<close>

text \<open>
  \<open>isPathAllowed\<close> of \<open>file_processor_tool.js\<close> (the example tool holds a copy of it
  with the same body). The value of \<open>process.env.ALLOWED_PATHS\<close> is \<open>env\<close>: \<open>None\<close> when
  the variable is not set. An unset or empty value is falsy and gives the empty
  allow-list; any other value is split at the commas. The function returns a boolean or
  lets the failure of \<open>process.cwd()\<close> through.
\<close>

definition allowedPaths_of :: "string option \<Rightarrow> string list" where
  "allowedPaths_of env =
     (case env of None \<Rightarrow> [] | Some v \<Rightarrow> if v = [] then [] else split_on CHR '','' v)"

text \<open>
  \<open>allowedPaths.some(...)\<close>: the roots are tried in order until one is a string prefix
  of the resolved candidate; resolving a relative root calls \<open>process.cwd()\<close> and may
  fail.
\<close>

fun some_root :: "js_error + string \<Rightarrow> string \<Rightarrow> string list \<Rightarrow> js_error + bool" where
  "some_root cwd resolvedPath [] = Inr False"
| "some_root cwd resolvedPath (allowedPath # rest) =
     (case resolve cwd (trim allowedPath) of
        Inl e \<Rightarrow> Inl e
      | Inr resolvedAllowedPath \<Rightarrow>
          if prefix resolvedAllowedPath resolvedPath then Inr True
          else some_root cwd resolvedPath rest)"

definition isPathAllowed ::
  "string option \<Rightarrow> js_error + string \<Rightarrow> string \<Rightarrow> js_error + bool" where
  "isPathAllowed env cwd targetPath =
     (let allowedPaths = allowedPaths_of env
      in case resolve cwd targetPath of
        Inl e \<Rightarrow> Inl e
      | Inr resolvedPath \<Rightarrow> some_root cwd resolvedPath allowedPaths)"

section \<open>Schema validation\<close>

text \<open>
  The \<open>zod\<close> schemas of the tools, as far as they decide between a validated value and a
  \<open>ZodError\<close>. A property is looked up in the argument object; an absent property is
  \<open>undefined\<close>. Every failing property contributes one issue, in the order of the schema.
\<close>

fun parsed_type :: "json \<Rightarrow> string" where
  "parsed_type JUndefined = ''undefined''"
| "parsed_type JNull = ''null''"
| "parsed_type (JBool b) = ''boolean''"
| "parsed_type (JNum n) = ''number''"
| "parsed_type (JStr s) = ''string''"
| "parsed_type (JArr xs) = ''array''"
| "parsed_type (JObj kvs) = ''object''"

definition property :: "obj \<Rightarrow> string \<Rightarrow> json" where
  "property kvs k = (case map_of kvs k of None \<Rightarrow> JUndefined | Some v \<Rightarrow> v)"

definition invalid_type :: "string \<Rightarrow> json \<Rightarrow> zod_issue list" where
  "invalid_type field v = [ZodIssue ''invalid_type'' [field] (parsed_type v)]"

fun z_string :: "string \<Rightarrow> json \<Rightarrow> zod_issue list + string" where
  "z_string field (JStr s) = Inr s"
| "z_string field v = Inl (invalid_type field v)"

fun z_boolean :: "string \<Rightarrow> json \<Rightarrow> zod_issue list + bool" where
  "z_boolean field (JBool b) = Inr b"
| "z_boolean field v = Inl (invalid_type field v)"

fun z_number :: "string \<Rightarrow> json \<Rightarrow> zod_issue list + rat" where
  "z_number field (JNum n) = Inr n"
| "z_number field v = Inl (invalid_type field v)"

text \<open>\<open>z.enum(values)\<close>: the values are given with what each one stands for.\<close>

fun z_enum :: "(string \<times> 'a) list \<Rightarrow> string \<Rightarrow> json \<Rightarrow> zod_issue list + 'a" where
  "z_enum values field (JStr s) =
     (case map_of values s of
        Some a \<Rightarrow> Inr a
      | None \<Rightarrow> Inl [ZodIssue ''invalid_enum_value'' [field] s])"
| "z_enum values field v = Inl (invalid_type field v)"

definition z_optional ::
  "(string \<Rightarrow> json \<Rightarrow> zod_issue list + 'a) \<Rightarrow> string \<Rightarrow> json \<Rightarrow> zod_issue list + 'a option" where
  "z_optional inner field v =
     (if v = JUndefined then Inr None else map_sum id Some (inner field v))"

definition z_default ::
  "(string \<Rightarrow> json \<Rightarrow> zod_issue list + 'a) \<Rightarrow> 'a \<Rightarrow> string \<Rightarrow> json \<Rightarrow> zod_issue list + 'a" where
  "z_default inner d field v = (if v = JUndefined then Inr d else inner field v)"

definition issues_of :: "zod_issue list + 'a \<Rightarrow> zod_issue list" where
  "issues_of r = (case r of Inl issues \<Rightarrow> issues | Inr _ \<Rightarrow> [])"

section \<open>The file processor tool\<close>

datatype operation = OpRead | OpList | OpSearch | OpStats

datatype encoding = Utf8 | Binary | Base64

fun operation_name :: "operation \<Rightarrow> string" where
  "operation_name OpRead = ''read''"
| "operation_name OpList = ''list''"
| "operation_name OpSearch = ''search''"
| "operation_name OpStats = ''stats''"

fun encoding_name :: "encoding \<Rightarrow> string" where
  "encoding_name Utf8 = ''utf8''"
| "encoding_name Binary = ''binary''"
| "encoding_name Base64 = ''base64''"

record file_args =
  fa_operation :: operation
  fa_path :: string
  fa_pattern :: "string option"
  fa_recursive :: bool
  fa_max_size :: rat
  fa_encoding :: encoding

text \<open>\<open>inputSchema.parse(args)\<close> of \<open>file_processor_tool.js\<close>.\<close>

definition file_inputSchema_parse :: "json \<Rightarrow> zod_issue list + file_args" where
  "file_inputSchema_parse args =
     (case args of
        JObj kvs \<Rightarrow>
          (let r_operation = z_enum [(''read'', OpRead), (''list'', OpList),
                 (''search'', OpSearch), (''stats'', OpStats)] ''operation'' (property kvs ''operation'');
               r_path = z_string ''path'' (property kvs ''path'');
               r_pattern = z_optional z_string ''pattern'' (property kvs ''pattern'');
               r_recursive = z_default z_boolean False ''recursive'' (property kvs ''recursive'');
               r_max_size = z_default z_number (1024 * 1024) ''max_size'' (property kvs ''max_size'');
               r_encoding = z_default (z_enum [(''utf8'', Utf8), (''binary'', Binary),
                 (''base64'', Base64)]) Utf8 ''encoding'' (property kvs ''encoding'');
               issues = issues_of r_operation @ issues_of r_path @ issues_of r_pattern
                 @ issues_of r_recursive @ issues_of r_max_size @ issues_of r_encoding
           in if issues = []
              then Inr \<lparr> fa_operation = projr r_operation, fa_path = projr r_path,
                         fa_pattern = projr r_pattern, fa_recursive = projr r_recursive,
                         fa_max_size = projr r_max_size, fa_encoding = projr r_encoding \<rparr>
              else Inl issues)
      | _ \<Rightarrow> Inl [ZodIssue ''invalid_type'' [] (parsed_type args)])"

definition access_denied :: "string \<Rightarrow> js_error" where
  "access_denied p = JsError (''Access denied: '' @ p @ '' is not in an allowed directory'')"

definition allowed :: "world \<Rightarrow> string \<Rightarrow> js_error + bool" where
  "allowed w p = isPathAllowed (ALLOWED_PATHS w) (process_cwd w) p"

definition hex_byte :: "char \<Rightarrow> string" where
  "hex_byte c = (let s = show_nat_base 16 (of_char c) in if length s < 2 then ''0'' @ s else s)"

definition readFile ::
  "lib \<Rightarrow> world \<Rightarrow> string \<Rightarrow> rat \<Rightarrow> encoding \<Rightarrow> js_error + obj" where
  "readFile l w filePath maxSize enc =
     (case allowed w filePath of
        Inl e \<Rightarrow> Inl e
      | Inr admitted \<Rightarrow>
          (if \<not> admitted then Inl (access_denied filePath)
          else case fs_stat w filePath of
            Inl e \<Rightarrow> Inl e
          | Inr st \<Rightarrow>
              (if \<not> st_isFile st then Inl (JsError (filePath @ '' is not a file''))
               else if of_nat (st_size st) > maxSize then
                 Inl (JsError (''File size ('' @ formatSize l (of_nat (st_size st))
                        @ '') exceeds maximum allowed size ('' @ formatSize l maxSize @ '')''))
               else (case fs_readFile w filePath of
                 Inl e \<Rightarrow> Inl e
               | Inr buffer \<Rightarrow>
                  (let content = (case enc of
                           Binary \<Rightarrow> join_with '' '' (map hex_byte buffer)
                         | Base64 \<Rightarrow> base64 l buffer
                         | Utf8 \<Rightarrow> buffer)
                   in Inr [(''operation'', JStr ''read''),
                           (''path'', JStr filePath),
                           (''size'', JNum (of_nat (st_size st))),
                           (''size_formatted'', JStr (formatSize l (of_nat (st_size st)))),
                           (''encoding'', JStr (encoding_name enc)),
                           (''content'', JStr content),
                           (''lines'', if enc = Utf8
                              then JNum (of_nat (length (split_on CHR 0x0A content))) else JNull),
                           (''modified'', JStr (st_mtime st))])))))"

text \<open>
  \<open>listDirectory\<close>. The inner function \<open>listRecursive\<close> and its loop over the entries
  are two functions that call each other; \<open>results\<close> is the array the loop pushes to.
  A failure of \<open>fs.stat\<close> on a file is caught inside the loop; every other failure leaves
  the function.
\<close>

definition file_entry :: "lib \<Rightarrow> world \<Rightarrow> dirent \<Rightarrow> string \<Rightarrow> string \<Rightarrow> nat \<Rightarrow> json" where
  "file_entry l w entry fullPath relativePath depth =
     (case fs_stat w fullPath of
        Inr st \<Rightarrow> JObj [(''name'', JStr (d_name entry)),
                         (''path'', JStr relativePath),
                         (''type'', JStr ''file''),
                         (''size'', JNum (of_nat (st_size st))),
                         (''size_formatted'', JStr (formatSize l (of_nat (st_size st)))),
                         (''modified'', JStr (st_mtime st)),
                         (''extension'', JStr (path_extname l (d_name entry))),
                         (''depth'', JNum (of_nat depth))]
      | Inl e \<Rightarrow> JObj [(''name'', JStr (d_name entry)),
                        (''path'', JStr relativePath),
                        (''type'', JStr ''file''),
                        (''error'', JStr ''Unable to read file stats''),
                        (''depth'', JNum (of_nat depth))])"

function listRecursive ::
    "lib \<Rightarrow> world \<Rightarrow> string \<Rightarrow> bool \<Rightarrow> string \<Rightarrow> nat \<Rightarrow> js_error + json list"
  and listEntries ::
    "lib \<Rightarrow> world \<Rightarrow> string \<Rightarrow> bool \<Rightarrow> string \<Rightarrow> nat \<Rightarrow> dirent list \<Rightarrow> json list
       \<Rightarrow> js_error + json list"
where
  "listRecursive l w dirPath recursive currentPath depth =
     (if depth > 10 then Inl (JsError ''Maximum directory depth exceeded'')
      else case fs_readdir w currentPath of
        Inl e \<Rightarrow> Inl e
      | Inr entries \<Rightarrow> listEntries l w dirPath recursive currentPath depth entries [])"
| "listEntries l w dirPath recursive currentPath depth [] results = Inr results"
| "listEntries l w dirPath recursive currentPath depth (entry # rest) results =
     (let fullPath = path_join currentPath (d_name entry);
          relativePath = path_relative l dirPath fullPath
      in if d_isDirectory entry then
           (let dirInfo = JObj [(''name'', JStr (d_name entry)),
                                (''path'', JStr relativePath),
                                (''type'', JStr ''directory''),
                                (''depth'', JNum (of_nat depth))]
            in if recursive then
                 (case listRecursive l w dirPath recursive fullPath (depth + 1) of
                    Inl e \<Rightarrow> Inl e
                  | Inr subEntries \<Rightarrow>
                      listEntries l w dirPath recursive currentPath depth rest
                        (results @ [dirInfo] @ subEntries))
               else listEntries l w dirPath recursive currentPath depth rest
                      (results @ [dirInfo]))
         else if d_isFile entry then
           listEntries l w dirPath recursive currentPath depth rest
             (results @ [file_entry l w entry fullPath relativePath depth])
         else listEntries l w dirPath recursive currentPath depth rest results)"
  by pat_completeness auto
termination
  by (relation "inv_image (less_than <*lex*> less_than)
        (\<lambda>x. case x of
           Inl (l, w, dirPath, recursive, currentPath, depth) \<Rightarrow>
             (if depth > 10 then 0 else 2 * (11 - depth) + 2, 0)
         | Inr (l, w, dirPath, recursive, currentPath, depth, entries, results) \<Rightarrow>
             (if depth > 10 then 1 else 2 * (11 - depth) + 1, length entries))")
     auto

declare listRecursive.simps [simp del]

definition entry_type :: "json \<Rightarrow> string" where
  "entry_type e = (case obj_get e ''type'' of Some (JStr t) \<Rightarrow> t | _ \<Rightarrow> [])"

definition entry_size :: "json \<Rightarrow> rat" where
  "entry_size e = (case obj_get e ''size'' of Some (JNum n) \<Rightarrow> n | _ \<Rightarrow> 0)"

definition listDirectory :: "lib \<Rightarrow> world \<Rightarrow> string \<Rightarrow> bool \<Rightarrow> js_error + obj" where
  "listDirectory l w dirPath recursive =
     (case allowed w dirPath of
        Inl e \<Rightarrow> Inl e
      | Inr admitted \<Rightarrow>
          (if \<not> admitted then Inl (access_denied dirPath)
          else case fs_stat w dirPath of
            Inl e \<Rightarrow> Inl e
          | Inr st \<Rightarrow>
              (if \<not> st_isDirectory st then Inl (JsError (dirPath @ '' is not a directory''))
               else (case listRecursive l w dirPath recursive dirPath 0 of
                 Inl e \<Rightarrow> Inl e
               | Inr entries \<Rightarrow>
                   (let total_size = sum_list (map entry_size
                          (filter (\<lambda>e. entry_type e = ''file'' \<and> entry_size e \<noteq> 0) entries))
                    in Inr [(''operation'', JStr ''list''),
                            (''path'', JStr dirPath),
                            (''recursive'', JBool recursive),
                            (''entries'', JArr entries),
                            (''summary'', JObj
                               [(''total'', JNum (of_nat (length entries))),
                                (''files'', JNum (of_nat (length
                                   (filter (\<lambda>e. entry_type e = ''file'') entries)))),
                                (''directories'', JNum (of_nat (length
                                   (filter (\<lambda>e. entry_type e = ''directory'') entries)))),
                                (''total_size'', JNum total_size),
                                (''total_size_formatted'', JStr (formatSize l total_size))])])))))"


text \<open>
  \<open>searchFiles\<close>. \<open>matches\<close> is the array shared by all levels of \<open>searchRecursive\<close>;
  the \<open>try\<close> around the body of \<open>searchRecursive\<close> swallows the failure of \<open>fs.readdir\<close>,
  and the inner \<open>try\<close> the failure of \<open>fs.stat\<close>.
\<close>

definition match_entry ::
  "lib \<Rightarrow> world \<Rightarrow> dirent \<Rightarrow> string \<Rightarrow> string \<Rightarrow> nat \<Rightarrow> json" where
  "match_entry l w entry fullPath relativePath depth =
     (case fs_stat w fullPath of
        Inr st \<Rightarrow> JObj [(''name'', JStr (d_name entry)),
                         (''path'', JStr relativePath),
                         (''full_path'', JStr fullPath),
                         (''type'', JStr (if d_isDirectory entry then ''directory'' else ''file'')),
                         (''size'', if d_isFile entry then JNum (of_nat (st_size st)) else JNull),
                         (''size_formatted'', if d_isFile entry
                            then JStr (formatSize l (of_nat (st_size st))) else JNull),
                         (''modified'', JStr (st_mtime st)),
                         (''depth'', JNum (of_nat depth))]
      | Inl e \<Rightarrow> JObj [(''name'', JStr (d_name entry)),
                        (''path'', JStr relativePath),
                        (''full_path'', JStr fullPath),
                        (''type'', JStr (if d_isDirectory entry then ''directory'' else ''file'')),
                        (''error'', JStr ''Unable to read stats''),
                        (''depth'', JNum (of_nat depth))])"

function searchRecursive ::
    "lib \<Rightarrow> world \<Rightarrow> string \<Rightarrow> string \<Rightarrow> bool \<Rightarrow> string \<Rightarrow> nat \<Rightarrow> json list \<Rightarrow> json list"
  and searchEntries ::
    "lib \<Rightarrow> world \<Rightarrow> string \<Rightarrow> string \<Rightarrow> bool \<Rightarrow> string \<Rightarrow> nat \<Rightarrow> dirent list
       \<Rightarrow> json list \<Rightarrow> json list"
where
  "searchRecursive l w searchPath pattern recursive currentPath depth matches =
     (if depth > 10 then matches
      else case fs_readdir w currentPath of
        Inl e \<Rightarrow> matches
      | Inr entries \<Rightarrow>
          searchEntries l w searchPath pattern recursive currentPath depth entries matches)"
| "searchEntries l w searchPath pattern recursive currentPath depth [] matches = matches"
| "searchEntries l w searchPath pattern recursive currentPath depth (entry # rest) matches =
     (let fullPath = path_join currentPath (d_name entry);
          relativePath = path_relative l searchPath fullPath;
          matches1 = (if regex_test l pattern (d_name entry)
                      then matches @ [match_entry l w entry fullPath relativePath depth]
                      else matches)
      in if d_isDirectory entry \<and> recursive \<and> depth < 10
         then searchEntries l w searchPath pattern recursive currentPath depth rest
                (searchRecursive l w searchPath pattern recursive fullPath (depth + 1) matches1)
         else searchEntries l w searchPath pattern recursive currentPath depth rest matches1)"
  by pat_completeness auto
termination
  by (relation "inv_image (less_than <*lex*> less_than)
        (\<lambda>x. case x of
           Inl (l, w, searchPath, pattern, recursive, currentPath, depth, matches) \<Rightarrow>
             (if depth > 10 then 0 else 2 * (11 - depth) + 2, 0)
         | Inr (l, w, searchPath, pattern, recursive, currentPath, depth, entries, matches) \<Rightarrow>
             (if depth > 10 then 1 else 2 * (11 - depth) + 1, length entries))")
     auto

declare searchRecursive.simps [simp del]

definition searchFiles ::
  "lib \<Rightarrow> world \<Rightarrow> string \<Rightarrow> string \<Rightarrow> bool \<Rightarrow> js_error + obj" where
  "searchFiles l w searchPath pattern recursive =
     (case allowed w searchPath of
        Inl e \<Rightarrow> Inl e
      | Inr admitted \<Rightarrow>
          (if \<not> admitted then Inl (access_denied searchPath)
          else if \<not> regex_valid l pattern then Inl (SyntaxError (regex_error l pattern))
          else
            let matches = searchRecursive l w searchPath pattern recursive searchPath 0 []
            in Inr [(''operation'', JStr ''search''),
                    (''path'', JStr searchPath),
                    (''pattern'', JStr pattern),
                    (''recursive'', JBool recursive),
                    (''matches'', JArr matches),
                    (''count'', JNum (of_nat (length matches)))]))"

text \<open>\<open>getStats\<close>: a missing target (\<open>ENOENT\<close>) is reported as a result, not raised.\<close>

definition getStats :: "lib \<Rightarrow> world \<Rightarrow> string \<Rightarrow> js_error + obj" where
  "getStats l w targetPath =
     (case allowed w targetPath of
        Inl e \<Rightarrow> Inl e
      | Inr admitted \<Rightarrow>
          (if \<not> admitted then Inl (access_denied targetPath)
          else case fs_stat w targetPath of
            Inr st \<Rightarrow>
              Inr [(''operation'', JStr ''stats''),
                   (''path'', JStr targetPath),
                   (''exists'', JBool True),
                   (''name'', JStr (path_parse_name l targetPath)),
                   (''extension'', JStr (path_parse_ext l targetPath)),
                   (''directory'', JStr (path_parse_dir l targetPath)),
                   (''type'', JStr (if st_isDirectory st then ''directory'' else ''file'')),
                   (''size'', JNum (of_nat (st_size st))),
                   (''size_formatted'', JStr (formatSize l (of_nat (st_size st)))),
                   (''permissions'', JObj [(''mode'', JStr (show_nat_base 8 (st_mode st))),
                                           (''readable'', JBool True)]),
                   (''times'', JObj [(''created'', JStr (st_birthtime st)),
                                     (''modified'', JStr (st_mtime st)),
                                     (''accessed'', JStr (st_atime st))]),
                   (''is_directory'', JBool (st_isDirectory st)),
                   (''is_file'', JBool (st_isFile st)),
                   (''is_symlink'', JBool (st_isSymbolicLink st))]
          | Inl e \<Rightarrow>
              (if error_code e = JStr ''ENOENT''
               then Inr [(''operation'', JStr ''stats''),
                         (''path'', JStr targetPath),
                         (''exists'', JBool False),
                         (''error'', JStr ''File or directory not found'')]
               else Inl e)))"

text \<open>
  \<open>execute\<close> of the file processor. Validation runs before the \<open>try\<close>, so a \<open>ZodError\<close>
  leaves \<open>execute\<close>; a failure inside the \<open>try\<close> becomes the failure object. After
  validation \<open>operation\<close> is one of the four names, so the \<open>default\<close> branch of the
  \<open>switch\<close> is not reached.
\<close>

definition file_execute :: "lib \<Rightarrow> world \<Rightarrow> json \<Rightarrow> js_error + json" where
  "file_execute l w args =
     (case file_inputSchema_parse args of
        Inl issues \<Rightarrow> Inl (ZodError issues)
      | Inr validatedArgs \<Rightarrow>
          (let operation = fa_operation validatedArgs;
               targetPath = fa_path validatedArgs;
               pattern = fa_pattern validatedArgs;
               recursive = fa_recursive validatedArgs;
               max_size = fa_max_size validatedArgs;
               enc = fa_encoding validatedArgs;
               outcome = (case operation of
                   OpRead \<Rightarrow> readFile l w targetPath max_size enc
                 | OpList \<Rightarrow> listDirectory l w targetPath recursive
                 | OpSearch \<Rightarrow>
                     (case pattern of
                        None \<Rightarrow> Inl (JsError ''pattern is required for search operation'')
                      | Some pat \<Rightarrow>
                          if pat = [] then Inl (JsError ''pattern is required for search operation'')
                          else searchFiles l w targetPath pat recursive)
                 | OpStats \<Rightarrow> getStats l w targetPath)
           in case outcome of
                Inr result \<Rightarrow>
                  Inr (JObj (obj_spread [(''success'', JBool True),
                                         (''timestamp'', JStr (now_iso w))] result))
              | Inl error \<Rightarrow>
                  Inr (JObj [(''success'', JBool False),
                             (''operation'', JStr (operation_name operation)),
                             (''path'', JStr targetPath),
                             (''error'', JObj [(''message'', JStr (error_message l error)),
                                               (''code'', error_code error)]),
                             (''timestamp'', JStr (now_iso w))])))"

section \<open>Facts of the host\<close>

text \<open>
  What the \<open>os\<close>, \<open>process\<close> and \<open>Intl\<close> modules report. The four collectors of the
  system information tool that are not examined further (hardware, process, environment,
  network) only read such facts and build an object from them; each is kept as the
  function of its \<open>detailed\<close> flag, and may raise (the process collector calls
  \<open>process.cwd()\<close>).
\<close>

record os_facts =
  os_hostname :: string
  os_platform :: string
  os_arch :: string
  os_type :: string
  os_release :: string
  process_version :: string
  os_uptime :: rat
  process_uptime :: rat
  os_loadavg :: "rat \<times> rat \<times> rat"
  os_endianness :: string
  os_homedir :: string
  os_tmpdir :: string
  env_SHELL :: "string option"
  env_COMSPEC :: "string option"
  intl_timeZone :: string
  intl_locale :: string
  os_totalmem :: nat
  os_freemem :: nat
  os_cpu_count :: nat
  os_network_interface_names :: "string list"
  env_count :: nat
  process_pid :: nat
  date_toLocaleString :: string
  getHardwareInfo :: "bool \<Rightarrow> js_error + json"
  getProcessInfo :: "bool \<Rightarrow> js_error + json"
  getEnvironmentInfo :: "bool \<Rightarrow> js_error + json"
  getNetworkInfo :: "bool \<Rightarrow> js_error + json"

text \<open>\<open>Math.floor\<close>, and the remainder \<open>x % y\<close> of JavaScript (the sign of the dividend).\<close>

definition js_rem :: "rat \<Rightarrow> rat \<Rightarrow> rat" where
  "js_rem x y = x - y * of_int (if x / y \<ge> 0 then \<lfloor>x / y\<rfloor> else \<lceil>x / y\<rceil>)"

definition formatUptime :: "lib \<Rightarrow> rat \<Rightarrow> string" where
  "formatUptime l seconds =
     (let days = \<lfloor>seconds / 86400\<rfloor>;
          hours = \<lfloor>js_rem seconds 86400 / 3600\<rfloor>;
          minutes = \<lfloor>js_rem seconds 3600 / 60\<rfloor>;
          secs = \<lfloor>js_rem seconds 60\<rfloor>;
          parts = (if days > 0 then [show_number l (nat days) @ ''d''] else [])
                @ (if hours > 0 then [show_number l (nat hours) @ ''h''] else [])
                @ (if minutes > 0 then [show_number l (nat minutes) @ ''m''] else [])
                @ (if secs > 0 then [show_number l (nat secs) @ ''s''] else []);
          joined = join_with '' '' parts
      in if joined = [] then ''0s'' else joined)"

definition env_or :: "string option \<Rightarrow> json" where
  "env_or v = (case v of None \<Rightarrow> JUndefined | Some s \<Rightarrow> JStr s)"

section \<open>The system information tool\<close>

datatype category = Overview | Hardware | Process | Environment | Network

fun category_name :: "category \<Rightarrow> string" where
  "category_name Overview = ''overview''"
| "category_name Hardware = ''hardware''"
| "category_name Process = ''process''"
| "category_name Environment = ''environment''"
| "category_name Network = ''network''"

record sysinfo_args =
  sa_category :: category
  sa_detailed :: bool

definition sysinfo_inputSchema_parse :: "json \<Rightarrow> zod_issue list + sysinfo_args" where
  "sysinfo_inputSchema_parse args =
     (case args of
        JObj kvs \<Rightarrow>
          (let r_category = z_default (z_enum [(''overview'', Overview), (''hardware'', Hardware),
                 (''process'', Process), (''environment'', Environment), (''network'', Network)])
                 Overview ''category'' (property kvs ''category'');
               r_detailed = z_default z_boolean False ''detailed'' (property kvs ''detailed'');
               issues = issues_of r_category @ issues_of r_detailed
           in if issues = []
              then Inr \<lparr> sa_category = projr r_category, sa_detailed = projr r_detailed \<rparr>
              else Inl issues)
      | _ \<Rightarrow> Inl [ZodIssue ''invalid_type'' [] (parsed_type args)])"

definition getSystemOverview :: "lib \<Rightarrow> os_facts \<Rightarrow> bool \<Rightarrow> json" where
  "getSystemOverview l os detailed =
     (let uptime = os_uptime os;
          (load1, load5, load15) = os_loadavg os;
          overview =
            [(''hostname'', JStr (os_hostname os)),
             (''platform'', JStr (os_platform os)),
             (''architecture'', JStr (os_arch os)),
             (''os_type'', JStr (os_type os)),
             (''os_release'', JStr (os_release os)),
             (''node_version'', JStr (process_version os)),
             (''uptime_seconds'', JNum (of_int \<lfloor>uptime\<rfloor>)),
             (''uptime_formatted'', JStr (formatUptime l uptime)),
             (''load_average'', JObj [(''1min'', JStr (toFixed2 l load1)),
                                      (''5min'', JStr (toFixed2 l load5)),
                                      (''15min'', JStr (toFixed2 l load15))])]
      in JObj (if detailed
           then assoc_set overview ''detailed''
                  (JObj [(''os_endianness'', JStr (os_endianness os)),
                         (''home_directory'', JStr (os_homedir os)),
                         (''temp_directory'', JStr (os_tmpdir os)),
                         (''shell'', if \<not> falsy (env_or (env_SHELL os)) then env_or (env_SHELL os)
                                     else if \<not> falsy (env_or (env_COMSPEC os))
                                     then env_or (env_COMSPEC os) else JStr ''unknown''),
                         (''timezone'', JStr (intl_timeZone os)),
                         (''locale'', JStr (intl_locale os))])
           else overview))"

text \<open>
  \<open>execute\<close> of the system information tool. After validation \<open>category\<close> is one of the
  five names, so the \<open>default\<close> branch of the \<open>switch\<close> is not reached. A failure of a
  collector becomes the failure object of the \<open>catch\<close>.
\<close>

definition sysinfo_execute :: "lib \<Rightarrow> world \<Rightarrow> os_facts \<Rightarrow> json \<Rightarrow> js_error + json" where
  "sysinfo_execute l w os args =
     (case sysinfo_inputSchema_parse args of
        Inl issues \<Rightarrow> Inl (ZodError issues)
      | Inr validatedArgs \<Rightarrow>
          (let cat = sa_category validatedArgs;
               detailed = sa_detailed validatedArgs;
               outcome = (case cat of
                   Overview \<Rightarrow> Inr (getSystemOverview l os detailed)
                 | Hardware \<Rightarrow> getHardwareInfo os detailed
                 | Process \<Rightarrow> getProcessInfo os detailed
                 | Environment \<Rightarrow> getEnvironmentInfo os detailed
                 | Network \<Rightarrow> getNetworkInfo os detailed)
           in case outcome of
                Inr result \<Rightarrow>
                  Inr (JObj [(''success'', JBool True),
                             (''category'', JStr (category_name cat)),
                             (''detailed'', JBool detailed),
                             (''data'', result),
                             (''timestamp'', JStr (now_iso w)),
                             (''collected_in_ms'', JNum 0)])
              | Inl error \<Rightarrow>
                  Inr (JObj [(''success'', JBool False),
                             (''category'', JStr (category_name cat)),
                             (''error'', JObj [(''message'', JStr (error_message l error)),
                                               (''type'', JStr (error_constructor_name error))]),
                             (''timestamp'', JStr (now_iso w))])))"

section \<open>The example tool\<close>

datatype action = Greet | Echo | FileInfo | SystemInfo

fun action_name :: "action \<Rightarrow> string" where
  "action_name Greet = ''greet''"
| "action_name Echo = ''echo''"
| "action_name FileInfo = ''file_info''"
| "action_name SystemInfo = ''system_info''"

record example_args =
  ea_action :: action
  ea_message :: "string option"
  ea_file_path :: "string option"
  ea_include_details :: bool

definition example_inputSchema_parse :: "json \<Rightarrow> zod_issue list + example_args" where
  "example_inputSchema_parse args =
     (case args of
        JObj kvs \<Rightarrow>
          (let r_action = z_enum [(''greet'', Greet), (''echo'', Echo), (''file_info'', FileInfo),
                 (''system_info'', SystemInfo)] ''action'' (property kvs ''action'');
               r_message = z_optional z_string ''message'' (property kvs ''message'');
               r_file_path = z_optional z_string ''file_path'' (property kvs ''file_path'');
               r_include_details = z_default z_boolean False ''include_details''
                 (property kvs ''include_details'');
               issues = issues_of r_action @ issues_of r_message @ issues_of r_file_path
                 @ issues_of r_include_details
           in if issues = []
              then Inr \<lparr> ea_action = projr r_action, ea_message = projr r_message,
                         ea_file_path = projr r_file_path,
                         ea_include_details = projr r_include_details \<rparr>
              else Inl issues)
      | _ \<Rightarrow> Inl [ZodIssue ''invalid_type'' [] (parsed_type args)])"

definition handleGreet :: "lib \<Rightarrow> os_facts \<Rightarrow> string \<Rightarrow> bool \<Rightarrow> json" where
  "handleGreet l os message includeDetails =
     (let greeting = ''Hello, '' @ message @ ''!''
      in if includeDetails
         then JObj [(''greeting'', JStr greeting),
                    (''details'', JObj
                       [(''message_length'', JNum (of_nat (string_length l message))),
                        (''current_time'', JStr (date_toLocaleString os)),
                        (''random_fact'', JStr
  ''Did you know? Claude Desktop Extensions use the Model Context Protocol!'')])]
         else JObj [(''greeting'', JStr greeting)])"

text \<open>
  \<open>message.split(/\s+/).filter(word => word.length > 0).length\<close>: the number of maximal
  runs of characters that are not white space.
\<close>

function word_count :: "bool \<Rightarrow> string \<Rightarrow> nat" where
  "word_count inWord s =
     (if s = [] then 0
      else case leadingWhiteSpace s of
        Some t \<Rightarrow> word_count False (drop (length t) s)
      | None \<Rightarrow> (if inWord then 0 else 1) + word_count True (tl s))"
  by pat_completeness auto
termination
proof (relation "measure (\<lambda>(inWord, s). length s)")
  show "wf (measure (\<lambda>(inWord, s). length s))" by simp
next
  fix inWord :: bool and s t :: string
  assume "s \<noteq> []" and "leadingWhiteSpace s = Some t"
  then have "t \<in> set whiteSpace"
    by (auto simp add: leadingWhiteSpace_def find_Some_iff)
  then have "t \<noteq> []"
    by (auto simp add: whiteSpace_def)
  with \<open>s \<noteq> []\<close> show "((False, drop (length t) s), (inWord, s))
      \<in> measure (\<lambda>(inWord, s). length s)"
    by (cases t) auto
next
  fix inWord :: bool and s :: string
  assume "s \<noteq> []"
  then show "((True, tl s), (inWord, s)) \<in> measure (\<lambda>(inWord, s). length s)"
    by (cases s) auto
qed

declare word_count.simps [simp del]

definition handleEcho :: "lib \<Rightarrow> string \<Rightarrow> bool \<Rightarrow> json" where
  "handleEcho l message includeDetails =
     (if includeDetails
      then JObj [(''echo'', JStr message),
                 (''details'', JObj
                    [(''character_count'', JNum (of_nat (string_length l message))),
                     (''word_count'', JNum (of_nat (word_count False message))),
                     (''uppercase'', JStr (toUpperCase l message)),
                     (''lowercase'', JStr (toLowerCase l message)),
                     (''reversed'', JStr (string_reverse l message))])]
      else JObj [(''echo'', JStr message)])"

definition handleFileInfo :: "lib \<Rightarrow> world \<Rightarrow> string \<Rightarrow> bool \<Rightarrow> js_error + json" where
  "handleFileInfo l w filePath includeDetails =
     (case allowed w filePath of
        Inl e \<Rightarrow> Inl e
      | Inr admitted \<Rightarrow>
          (if \<not> admitted then Inl (access_denied filePath)
           else
             let attempt =
               (case fs_stat w filePath of
                  Inl e \<Rightarrow> Inl e
                | Inr st \<Rightarrow>
                    (let basicInfo =
                           [(''exists'', JBool True),
                            (''name'', JStr (path_parse_name l filePath)),
                            (''extension'', JStr (path_parse_ext l filePath)),
                            (''size'', JStr (formatFileSize l (of_nat (st_size st)))),
                            (''size_bytes'', JNum (of_nat (st_size st))),
                            (''is_directory'', JBool (st_isDirectory st)),
                            (''is_file'', JBool (st_isFile st)),
                            (''modified'', JStr (st_mtime st))]
                     in if includeDetails
                        then (case resolve (process_cwd w) filePath of
                                Inl e \<Rightarrow> Inl e
                              | Inr full_path \<Rightarrow>
                                  Inr (JObj (obj_spread basicInfo
                                    [(''details'', JObj
                                       [(''full_path'', JStr full_path),
                                        (''directory'', JStr (path_parse_dir l filePath)),
                                        (''permissions'', JObj
                                           [(''readable'', JBool True),
                                            (''mode'', JStr (show_nat_base 8 (st_mode st)))]),
                                        (''created'', JStr (st_birthtime st)),
                                        (''accessed'', JStr (st_atime st)),
                                        (''blocks'', JNum (of_nat (st_blocks st))),
                                        (''block_size'', JNum (of_nat (st_blksize st)))])])))
                        else Inr (JObj basicInfo)))
             in case attempt of
                  Inr result \<Rightarrow> Inr result
                | Inl e \<Rightarrow>
                    (if error_code e = JStr ''ENOENT''
                     then Inr (JObj [(''exists'', JBool False),
                                     (''path'', JStr filePath),
                                     (''error'', JStr ''File or directory not found'')])
                     else Inl e)))"

definition handleSystemInfo ::
  "lib \<Rightarrow> world \<Rightarrow> os_facts \<Rightarrow> bool \<Rightarrow> js_error + json" where
  "handleSystemInfo l w os includeDetails =
     (let basicInfo =
            [(''platform'', JStr (os_platform os)),
             (''architecture'', JStr (os_arch os)),
             (''node_version'', JStr (process_version os)),
             (''uptime_seconds'', JNum (of_int \<lfloor>process_uptime os\<rfloor>))];
          (load1, load5, load15) = os_loadavg os
      in if includeDetails
         then (case process_cwd w of
                 Inl e \<Rightarrow> Inl e
               | Inr current_working_directory \<Rightarrow>
                   Inr (JObj (obj_spread basicInfo
                        [(''details'', JObj
                            [(''os_release'', JStr (os_release os)),
                             (''os_type'', JStr (os_type os)),
                             (''hostname'', JStr (os_hostname os)),
                             (''total_memory'', JStr (formatFileSize l (of_nat (os_totalmem os)))),
                             (''free_memory'', JStr (formatFileSize l (of_nat (os_freemem os)))),
                             (''cpu_count'', JNum (of_nat (os_cpu_count os))),
                             (''load_average'', JArr [JNum load1, JNum load5, JNum load15]),
                             (''network_interfaces'', JArr (map JStr (os_network_interface_names os))),
                             (''environment_variables'', JNum (of_nat (env_count os))),
                             (''process_id'', JNum (of_nat (process_pid os))),
                             (''current_working_directory'', JStr current_working_directory)])])))
         else Inr (JObj basicInfo))"

definition example_args_json :: "example_args \<Rightarrow> json" where
  "example_args_json a =
     JObj ([(''action'', JStr (action_name (ea_action a)))]
           @ (case ea_message a of None \<Rightarrow> [] | Some m \<Rightarrow> [(''message'', JStr m)])
           @ (case ea_file_path a of None \<Rightarrow> [] | Some p \<Rightarrow> [(''file_path'', JStr p)])
           @ [(''include_details'', JBool (ea_include_details a))])"

text \<open>
  \<open>execute\<close> of the example tool. \<open>message || 'World'\<close> and \<open>!file_path\<close> treat the empty
  string like an absent value.
\<close>

definition example_execute :: "lib \<Rightarrow> world \<Rightarrow> os_facts \<Rightarrow> json \<Rightarrow> js_error + json" where
  "example_execute l w os args =
     (case example_inputSchema_parse args of
        Inl issues \<Rightarrow> Inl (ZodError issues)
      | Inr validatedArgs \<Rightarrow>
          (let act = ea_action validatedArgs;
               message = ea_message validatedArgs;
               file_path = ea_file_path validatedArgs;
               include_details = ea_include_details validatedArgs;
               outcome = (case act of
                   Greet \<Rightarrow> Inr (handleGreet l os
                     (case message of None \<Rightarrow> ''World'' | Some m \<Rightarrow> if m = [] then ''World'' else m)
                     include_details)
                 | Echo \<Rightarrow> Inr (handleEcho l
                     (case message of None \<Rightarrow> [] | Some m \<Rightarrow> m) include_details)
                 | FileInfo \<Rightarrow>
                     (case file_path of
                        None \<Rightarrow> Inl (JsError ''file_path is required for file_info action'')
                      | Some fp \<Rightarrow>
                          if fp = [] then Inl (JsError ''file_path is required for file_info action'')
                          else handleFileInfo l w fp include_details)
                 | SystemInfo \<Rightarrow> handleSystemInfo l w os include_details)
           in case outcome of
                Inr result \<Rightarrow>
                  Inr (JObj [(''success'', JBool True),
                             (''action'', JStr (action_name act)),
                             (''result'', result),
                             (''metadata'', JObj (obj_spread
                                [(''execution_time_ms'', JNum (of_nat (elapsed_ms w))),
                                 (''timestamp'', JStr (now_iso w))]
                                (if include_details
                                 then [(''input_args'', example_args_json validatedArgs),
                                       (''environment'', JObj
                                          [(''node_version'', JStr (process_version os)),
                                           (''platform'', JStr (os_platform os)),
                                           (''arch'', JStr (os_arch os))])]
                                 else [])))])
              | Inl error \<Rightarrow>
                  Inr (JObj [(''success'', JBool False),
                             (''action'', JStr (action_name act)),
                             (''error'', JObj [(''message'', JStr (error_message l error)),
                                               (''type'', JStr (error_constructor_name error))]),
                             (''metadata'', JObj
                                [(''execution_time_ms'', JNum (of_nat (elapsed_ms w))),
                                 (''timestamp'', JStr (now_iso w))])])))"

section \<open>Registry and dispatcher\<close>

text \<open>
  A tool descriptor. Its \<open>execute\<close> receives the argument object and may read and change
  the state of the process, of type \<^typ>\<open>'w\<close>; it returns an object or raises.
\<close>

record 'w tool =
  tool_name :: string
  tool_description :: string
  tool_inputSchema :: json
  tool_execute :: "json \<Rightarrow> 'w \<Rightarrow> (js_error + json) \<times> 'w"

datatype ErrorCode = MethodNotFound | InternalError

datatype mcp_error = McpError ErrorCode string

datatype log_line = LogError string js_error

text \<open>
  \<open>this.tools\<close> is a \<open>Map\<close> from names to descriptors, kept in insertion order.
  \<open>registerTool\<close> stores a descriptor under its name; a second descriptor of the same
  name replaces the first. The structural check of \<open>registerTool\<close> holds for every value
  of the record type.
\<close>

type_synonym 'w registry = "(string \<times> 'w tool) list"

definition registerTool :: "'w registry \<Rightarrow> 'w tool \<Rightarrow> 'w registry" where
  "registerTool tools tool = assoc_set tools (tool_name tool) tool"

definition registerAllTools :: "'w tool list \<Rightarrow> 'w registry" where
  "registerAllTools registeredTools = foldl registerTool [] registeredTools"

text \<open>The handler of \<open>ListToolsRequestSchema\<close>.\<close>

definition listTools :: "'w registry \<Rightarrow> json" where
  "listTools tools =
     JObj [(''tools'', JArr (map (\<lambda>(k, tool).
        JObj [(''name'', JStr (tool_name tool)),
              (''description'', JStr (tool_description tool)),
              (''inputSchema'', tool_inputSchema tool)]) tools))]"

text \<open>
  The handler of \<open>CallToolRequestSchema\<close>. It returns the response or the \<open>McpError\<close> it
  raises, the state of the process after the call, and the lines written by \<open>logError\<close>.
\<close>

definition quoted :: "string \<Rightarrow> string" where
  "quoted s = [CHR 0x22] @ s @ [CHR 0x22]"

definition callTool ::
  "lib \<Rightarrow> 'w registry \<Rightarrow> string \<Rightarrow> json \<Rightarrow> 'w \<Rightarrow> (mcp_error + json) \<times> 'w \<times> log_line list" where
  "callTool l tools name args w =
     (case map_of tools name of
        None \<Rightarrow> (Inl (McpError MethodNotFound (''Tool '' @ quoted name @ '' not found'')), w, [])
      | Some tool \<Rightarrow>
          (case tool_execute tool (if falsy args then JObj [] else args) w of
             (Inr result, w') \<Rightarrow>
               (Inr (JObj [(''content'', JArr [JObj
                  [(''type'', JStr ''text''),
                   (''text'', JStr (case result of JStr text \<Rightarrow> text
                                    | _ \<Rightarrow> json_stringify l result))]])]),
                w', [])
           | (Inl error, w') \<Rightarrow>
               (Inl (McpError InternalError
                  (''Tool execution failed: '' @ error_message l error)),
                w',
                [LogError (''Tool execution failed for '' @ quoted name @ '':'') error])))"

text \<open>The three tools of \<open>registerTools\<close>, over the state of the process they read.\<close>

record process_state =
  ps_world :: world
  ps_os :: os_facts

definition schema_property :: "string \<Rightarrow> (string \<times> json) list \<Rightarrow> string \<Rightarrow> json" where
  "schema_property ty extra description =
     JObj ([(''type'', JStr ty)] @ extra @ [(''description'', JStr description)])"

definition exampleTool :: "lib \<Rightarrow> process_state tool" where
  "exampleTool l =
     \<lparr> tool_name = ''example_tool'',
       tool_description = ''A comprehensive example tool demonstrating best practices for Claude Desktop Extensions. Supports greet, echo, file_info, and system_info actions.'',
       tool_inputSchema = JObj
         [(''type'', JStr ''object''),
          (''properties'', JObj
             [(''action'', schema_property ''string''
                 [(''enum'', JArr [JStr ''greet'', JStr ''echo'', JStr ''file_info'',
                                   JStr ''system_info''])]
                 ''Action to perform''),
              (''message'', schema_property ''string'' []
                 ''Message to process (for greet and echo actions)''),
              (''file_path'', schema_property ''string'' []
                 ''File path to analyze (for file_info action)''),
              (''include_details'', schema_property ''boolean'' [(''default'', JBool False)]
                 ''Include detailed information in response'')]),
          (''required'', JArr [JStr ''action''])],
       tool_execute = (\<lambda>args s. (example_execute l (ps_world s) (ps_os s) args, s)) \<rparr>"

definition fileProcessorTool :: "lib \<Rightarrow> process_state tool" where
  "fileProcessorTool l =
     \<lparr> tool_name = ''file_processor'',
       tool_description = ''Process files and directories within allowed paths. Supports read, list, search, and stats operations.'',
       tool_inputSchema = JObj
         [(''type'', JStr ''object''),
          (''properties'', JObj
             [(''operation'', schema_property ''string''
                 [(''enum'', JArr [JStr ''read'', JStr ''list'', JStr ''search'', JStr ''stats''])]
                 ''File operation to perform''),
              (''path'', schema_property ''string'' [] ''File or directory path''),
              (''pattern'', schema_property ''string'' []
                 ''Search pattern (regex, for search operation)''),
              (''recursive'', schema_property ''boolean'' [(''default'', JBool False)]
                 ''Recursive operation (for list and search)''),
              (''max_size'', schema_property ''number'' [(''default'', JNum 1048576)]
                 ''Maximum file size to read in bytes''),
              (''encoding'', schema_property ''string''
                 [(''enum'', JArr [JStr ''utf8'', JStr ''binary'', JStr ''base64'']),
                  (''default'', JStr ''utf8'')]
                 ''File encoding for read operation'')]),
          (''required'', JArr [JStr ''operation'', JStr ''path''])],
       tool_execute = (\<lambda>args s. (file_execute l (ps_world s) args, s)) \<rparr>"

definition systemInfoTool :: "lib \<Rightarrow> process_state tool" where
  "systemInfoTool l =
     \<lparr> tool_name = ''system_info'',
       tool_description = ''Get comprehensive system information including OS details, hardware specs, process info, environment variables, and network configuration.'',
       tool_inputSchema = JObj
         [(''type'', JStr ''object''),
          (''properties'', JObj
             [(''category'', schema_property ''string''
                 [(''enum'', JArr [JStr ''overview'', JStr ''hardware'', JStr ''process'',
                                   JStr ''environment'', JStr ''network'']),
                  (''default'', JStr ''overview'')]
                 ''Information category to retrieve''),
              (''detailed'', schema_property ''boolean'' [(''default'', JBool False)]
                 ''Include detailed information (may contain sensitive data)'')]),
          (''required'', JArr [])],
       tool_execute = (\<lambda>args s. (sysinfo_execute l (ps_world s) (ps_os s) args, s)) \<rparr>"

definition registerTools :: "lib \<Rightarrow> process_state tool list" where
  "registerTools l = [exampleTool l, fileProcessorTool l, systemInfoTool l]"

definition server_tools :: "lib \<Rightarrow> process_state registry" where
  "server_tools l = registerAllTools (registerTools l)"

section \<open>A sample host\<close>

text \<open>
  A concrete library, file system and host, on which the properties below are instantiated.
  The library functions that the instances do not reach (\<open>JSON.stringify\<close>, base64, case
  conversion, \<open>Number::toString\<close>, \<open>path.parse\<close>) are stand-ins.
\<close>

definition sample_lib :: lib where
  "sample_lib =
     \<lparr> zod_message = (\<lambda>issues. join_with ''; ''
          (map (\<lambda>i. issue_code i @ '' at '' @ join_with ''.'' (issue_path i)) issues)),
       json_stringify = (\<lambda>v. ''{}''),
       regex_valid = (\<lambda>pattern. True),
       regex_error = (\<lambda>pattern. ''Invalid regular expression''),
       regex_test = (\<lambda>pattern name. pattern = name),
       base64 = (\<lambda>buffer. buffer),
       toUpperCase = (\<lambda>s. s),
       toLowerCase = (\<lambda>s. s),
       string_length = length,
       string_reverse = rev,
       number_toString = (\<lambda>x. ''1e+21''),
       path_relative = (\<lambda>from to. drop (length from + 1) to),
       path_extname = (\<lambda>p. []),
       path_parse_name = (\<lambda>p. p),
       path_parse_ext = (\<lambda>p. []),
       path_parse_dir = (\<lambda>p. []) \<rparr>"

definition sample_file_stats :: stats where
  "sample_file_stats =
     \<lparr> st_size = 50, st_isFile = True, st_isDirectory = False, st_isSymbolicLink = False,
       st_mode = 33188, st_mtime = ''2024-01-01T00:00:00.000Z'',
       st_birthtime = ''2024-01-01T00:00:00.000Z'', st_atime = ''2024-01-01T00:00:00.000Z'',
       st_blocks = 8, st_blksize = 4096 \<rparr>"

definition sample_dir_stats :: stats where
  "sample_dir_stats =
     sample_file_stats \<lparr> st_size := 4096, st_isFile := False, st_isDirectory := True,
                         st_mode := 16877 \<rparr>"

definition enoent :: "string \<Rightarrow> js_error" where
  "enoent p = SystemError ''ENOENT'' (''ENOENT: no such file or directory, '' @ p)"

definition enotdir :: "string \<Rightarrow> js_error" where
  "enotdir p = SystemError ''ENOTDIR'' (''ENOTDIR: not a directory, '' @ p)"

text \<open>
  A sample file system: the directory \<open>/data\<close> holds the file \<open>sample.txt\<close> of 50
  bytes and nothing else exists. A path below the regular file \<open>sample.txt\<close> does not
  exist either; \<open>fs.stat\<close> fails on it with \<open>ENOTDIR\<close>, on every other absent path with
  \<open>ENOENT\<close>.
\<close>

definition sample_world :: world where
  "sample_world =
     \<lparr> ALLOWED_PATHS = Some ''/data'',
       process_cwd = Inr ''/'',
       fs_stat = (\<lambda>p. if p = ''/data/sample.txt'' then Inr sample_file_stats
                       else if p = ''/data'' then Inr sample_dir_stats
                       else if prefix ''/data/sample.txt/'' p then Inl (enotdir p)
                       else Inl (enoent p)),
       fs_readdir = (\<lambda>p. if p = ''/data''
                          then Inr [\<lparr> d_name = ''sample.txt'', d_isDirectory = False,
                                      d_isFile = True \<rparr>]
                          else Inl (enoent p)),
       fs_readFile = (\<lambda>p. if p = ''/data/sample.txt''
                           then Inr (replicate 50 CHR ''a'') else Inl (enoent p)),
       now_iso = ''2024-01-01T00:00:00.000Z'',
       elapsed_ms = 1 \<rparr>"


definition sample_os :: os_facts where
  "sample_os =
     \<lparr> os_hostname = ''host'', os_platform = ''linux'', os_arch = ''x64'', os_type = ''Linux'',
       os_release = ''6.1.0'', process_version = ''v20.0.0'', os_uptime = 3661,
       process_uptime = 5 / 2, os_loadavg = (1 / 2, 1 / 4, 1 / 8), os_endianness = ''LE'',
       os_homedir = ''/root'', os_tmpdir = ''/tmp'', env_SHELL = Some ''/bin/sh'',
       env_COMSPEC = None, intl_timeZone = ''UTC'', intl_locale = ''en-US'',
       os_totalmem = 1073741824, os_freemem = 536870912, os_cpu_count = 2,
       os_network_interface_names = [''lo''], env_count = 10, process_pid = 1,
       date_toLocaleString = ''1/1/2024, 12:00:00 AM'',
       getHardwareInfo = (\<lambda>detailed. Inr (JObj [])),
       getProcessInfo = (\<lambda>detailed. Inr (JObj [])),
       getEnvironmentInfo = (\<lambda>detailed. Inr (JObj [])),
       getNetworkInfo = (\<lambda>detailed. Inr (JObj [])) \<rparr>"

definition sample_state :: process_state where
  "sample_state = \<lparr> ps_world = sample_world, ps_os = sample_os \<rparr>"

text \<open>The same host with \<open>ALLOWED_PATHS\<close> not set.\<close>

definition sample_world_no_env :: world where
  "sample_world_no_env = sample_world \<lparr> ALLOWED_PATHS := None \<rparr>"

text \<open>The same again, with the working directory gone: \<open>process.cwd()\<close> fails.\<close>

definition sample_world_no_cwd :: world where
  "sample_world_no_cwd =
     sample_world_no_env
       \<lparr> process_cwd := Inl (SystemError ''ENOENT''
            ''ENOENT: no such file or directory, uv_cwd'') \<rparr>"

section \<open>Helper facts\<close>

subsection \<open>Strings and paths\<close>

lemma split_on_not_Nil [simp]: "split_on c xs \<noteq> []"
  by (induction xs) (auto split: list.splits)

lemma split_on_append:
  "split_on c (xs @ c # ys) = split_on c xs @ split_on c ys"
  by (induction xs) (auto split: list.splits)

lemma split_on_no_sep: "s \<in> set (split_on c xs) \<Longrightarrow> c \<notin> set s"
proof (induction xs arbitrary: s)
  case Nil
  then show ?case by simp
next
  case (Cons x xs)
  show ?case
  proof (cases "x = c")
    case True
    with Cons show ?thesis by auto
  next
    case False
    obtain h t where ht: "split_on c xs = h # t"
      by (cases "split_on c xs") auto
    with Cons False show ?thesis by auto
  qed
qed

lemma split_on_single: "split_on c v = [r] \<Longrightarrow> r = v"
proof (induction v arbitrary: r)
  case Nil
  then show ?case by simp
next
  case (Cons x xs)
  obtain h t where ht: "split_on c xs = h # t"
    by (cases "split_on c xs") auto
  with Cons.prems have "x \<noteq> c" and "t = []" and "r = x # h"
    by (auto split: if_splits)
  with Cons.IH [of h] ht show ?case by simp
qed

lemma join_with_snoc:
  "join_with sep (ss @ [s]) = concat (map (\<lambda>a. a @ sep) ss) @ s"
  by (induction sep ss rule: join_with.induct) auto

lemma split_on_join:
  "ss \<noteq> [] \<Longrightarrow> \<forall>s \<in> set ss. c \<notin> set s \<Longrightarrow> split_on c (join_with [c] ss) = ss"
proof (induction "[c]" ss rule: join_with.induct)
  case 1
  then show ?case by simp
next
  case (2 s)
  then show ?case
    by (induction s) auto
next
  case (3 s t ss)
  have "split_on c (s @ c # join_with [c] (t # ss)) = split_on c s @ split_on c (join_with [c] (t # ss))"
    by (rule split_on_append)
  moreover have "split_on c s = [s]"
    using 3(3) by (induction s) auto
  ultimately show ?case
    using 3 by simp
qed

text \<open>Segments kept by normalisation when the path is absolute.\<close>

lemma normalizeStep_kept:
  "s \<in> set (normalizeStep False res seg) \<Longrightarrow> s \<in> set res \<or> (s = seg \<and> seg \<noteq> ''..'')"
  by (auto simp add: normalizeStep_def split: if_splits dest: in_set_butlastD)

lemma foldl_normalizeStep_kept:
  "s \<in> set (foldl (normalizeStep False) res segs) \<Longrightarrow>
   s \<in> set res \<or> (s \<in> set segs \<and> s \<noteq> ''..'')"
proof (induction segs arbitrary: res)
  case Nil
  then show ?case by simp
next
  case (Cons seg segs)
  from Cons.IH [OF Cons.prems [simplified]] show ?case
    by (auto dest: normalizeStep_kept)
qed

lemma normalizeSegments_kept:
  "s \<in> set (normalizeSegments False path) \<Longrightarrow> s \<noteq> ''..'' \<and> CHR ''/'' \<notin> set s"
  unfolding normalizeSegments_def
  by (auto dest!: foldl_normalizeStep_kept dest: split_on_no_sep)

lemma normalizeSegments_append:
  "normalizeSegments a (xs @ CHR ''/'' # ys) =
     foldl (normalizeStep a) (normalizeSegments a xs) (split_on CHR ''/'' ys)"
  by (simp add: normalizeSegments_def split_on_append)

lemma normalizeSegments_trailing:
  "normalizeSegments a (xs @ ''/'') = normalizeSegments a xs"
  using normalizeSegments_append [of a xs "[]"]
  by (simp add: normalizeStep_def)

text \<open>Roots of the samples have no white space at their ends.\<close>

lemma trim_data: "trim ''/data'' = ''/data''"
  by code_simp

lemma trim_allowed: "trim ''/allowed'' = ''/allowed''"
  by code_simp

lemma trim_e: "trim ''/e'' = ''/e''"
  by code_simp

lemma resolve_absolute_cwd:
  assumes "cwd \<noteq> []" and "hd cwd = CHR ''/''" and "p \<noteq> []"
  shows "resolve (Inr cwd) p =
           Inr (''/'' @ join_with ''/'' (normalizeSegments False (absolute_input cwd p)))"
proof (cases "hd p = CHR ''/''")
  case True
  then show ?thesis
    using assms normalizeSegments_trailing [of False p]
    by (simp add: resolve_def normalizeString_def absolute_input_def)
next
  case False
  then show ?thesis
    using assms normalizeSegments_trailing [of False "cwd @ ''/'' @ p"]
    by (simp add: resolve_def normalizeString_def absolute_input_def)
qed

lemma allowedPaths_single:
  assumes "allowedPaths_of env = [r]"
  shows "r \<noteq> []"
proof -
  from assms obtain v where v: "env = Some v" "v \<noteq> []" "split_on CHR '','' v = [r]"
    by (auto simp add: allowedPaths_of_def split: option.splits if_splits)
  then have "r = v" by (simp add: split_on_single)
  with v show ?thesis by simp
qed

lemma split_on_append_no_sep:
  "c \<notin> set ys \<Longrightarrow>
   split_on c (xs @ ys) = butlast (split_on c xs) @ [last (split_on c xs) @ ys]"
proof (induction xs)
  case Nil
  then show ?case
    by (induction ys) auto
next
  case (Cons x xs)
  obtain h t where ht: "split_on c xs = h # t"
    by (cases "split_on c xs") auto
  with Cons show ?case
    by (cases t) auto
qed

lemma concat_sep_join:
  "ss \<noteq> [] \<Longrightarrow> concat (map (\<lambda>a. a @ sep) ss) = join_with sep ss @ sep"
  by (induction sep ss rule: join_with.induct) auto

lemma join_prefix_concat:
  "prefix ss tt \<Longrightarrow> prefix (join_with sep ss) (concat (map (\<lambda>a. a @ sep) tt) @ t)"
proof (cases "ss = []")
  case True
  then show ?thesis by simp
next
  case False
  assume "prefix ss tt"
  then obtain zs where "tt = ss @ zs"
    by (auto elim: prefixE)
  with False show ?thesis
    by (simp add: concat_sep_join)
qed

lemma normalizeStep_sibling:
  "\<forall>s \<in> set res. s \<noteq> ''..'' \<Longrightarrow>
   prefix (join_with ''/'' (normalizeStep False res seg))
          (concat (map (\<lambda>a. a @ ''/'') res) @ seg @ ''-sibling'')"
proof -
  assume kept: "\<forall>s \<in> set res. s \<noteq> ''..''"
  consider (skip) "seg = [] \<or> seg = ''.''" | (up) "seg = ''..''"
    | (keep) "seg \<noteq> []" "seg \<noteq> ''.''" "seg \<noteq> ''..''"
    by blast
  then show ?thesis
  proof cases
    case skip
    then have "normalizeStep False res seg = res"
      by (auto simp add: normalizeStep_def)
    then show ?thesis
      by (simp add: join_prefix_concat)
  next
    case up
    then have "prefix (normalizeStep False res seg) res"
      by (auto simp add: normalizeStep_def prefixeq_butlast)
    then show ?thesis
      by (rule join_prefix_concat)
  next
    case keep
    then have "normalizeStep False res seg = res @ [seg]"
      by (simp add: normalizeStep_def)
    then show ?thesis
      by (simp add: join_with_snoc)
  qed
qed

lemma foldl_normalizeStep_no_dotdot:
  "\<forall>s \<in> set res. s \<noteq> ''..'' \<Longrightarrow>
   \<forall>s \<in> set (foldl (normalizeStep False) res segs). s \<noteq> ''..''"
  using foldl_normalizeStep_kept by blast

lemma sibling_resolved:
  assumes abs: "cwd \<noteq> []" "hd cwd = CHR ''/''" and r: "r \<noteq> []"
  shows "\<exists>a b. resolve (Inr cwd) r = Inr a \<and> resolve (Inr cwd) (r @ ''-sibling'') = Inr b
           \<and> prefix a b"
proof -
  define P where "P = split_on CHR ''/'' (absolute_input cwd r)"
  define S0 where "S0 = foldl (normalizeStep False) [] (butlast P)"
  have P_ne: "P \<noteq> []"
    by (simp add: P_def)
  have kept: "\<forall>s \<in> set S0. s \<noteq> ''..''"
    unfolding S0_def by (rule foldl_normalizeStep_no_dotdot) simp
  have "normalizeSegments False (absolute_input cwd r) =
      foldl (normalizeStep False) [] (butlast P @ [last P])"
    using P_ne by (simp add: normalizeSegments_def P_def)
  then have root: "normalizeSegments False (absolute_input cwd r) =
      normalizeStep False S0 (last P)"
    by (simp add: S0_def)
  have inp: "absolute_input cwd (r @ ''-sibling'') = absolute_input cwd r @ ''-sibling''"
    using r by (simp add: absolute_input_def)
  have "split_on CHR ''/'' (absolute_input cwd r @ ''-sibling'') =
      butlast P @ [last P @ ''-sibling'']"
    unfolding P_def by (rule split_on_append_no_sep) simp
  then have "normalizeSegments False (absolute_input cwd (r @ ''-sibling'')) =
      normalizeStep False S0 (last P @ ''-sibling'')"
    by (simp add: normalizeSegments_def inp S0_def)
  moreover have "normalizeStep False S0 (last P @ ''-sibling'') = S0 @ [last P @ ''-sibling'']"
    by (simp add: normalizeStep_def append_eq_Cons_conv)
  ultimately have cand: "normalizeSegments False (absolute_input cwd (r @ ''-sibling'')) =
      S0 @ [last P @ ''-sibling'']"
    by simp
  have "prefix (join_with ''/'' (normalizeStep False S0 (last P)))
          (concat (map (\<lambda>a. a @ ''/'') S0) @ last P @ ''-sibling'')"
    using kept by (rule normalizeStep_sibling)
  then show ?thesis
    using abs r by (simp add: resolve_absolute_cwd root cand join_with_snoc)
qed

subsection \<open>Tools\<close>

lemma map_of_server_tools:
  "map_of (server_tools l) name =
     (if name = ''example_tool'' then Some (exampleTool l)
      else if name = ''file_processor'' then Some (fileProcessorTool l)
      else if name = ''system_info'' then Some (systemInfoTool l)
      else None)"
  by (simp add: server_tools_def registerAllTools_def registerTools_def registerTool_def
      exampleTool_def fileProcessorTool_def systemInfoTool_def)

lemma allowed_sample_data: "allowed sample_world ''/data/none'' = Inr True"
  by (simp add: allowed_def sample_world_def isPathAllowed_def allowedPaths_of_def resolve_def
      normalizeString_def normalizeSegments_def normalizeStep_def trim_data)

lemma example_execute_no_action:
  "example_execute l w os (JObj []) =
     Inl (ZodError [ZodIssue ''invalid_type'' [''action''] ''undefined''])"
  by (simp add: example_execute_def example_inputSchema_parse_def property_def z_optional_def
      z_default_def issues_of_def invalid_type_def)

lemma file_execute_validated:
  "file_inputSchema_parse args = Inr va \<Longrightarrow>
   file_execute l w args =
     (case (case fa_operation va of
              OpRead \<Rightarrow> readFile l w (fa_path va) (fa_max_size va) (fa_encoding va)
            | OpList \<Rightarrow> listDirectory l w (fa_path va) (fa_recursive va)
            | OpSearch \<Rightarrow>
                (case fa_pattern va of
                   None \<Rightarrow> Inl (JsError ''pattern is required for search operation'')
                 | Some pat \<Rightarrow>
                     if pat = [] then Inl (JsError ''pattern is required for search operation'')
                     else searchFiles l w (fa_path va) pat (fa_recursive va))
            | OpStats \<Rightarrow> getStats l w (fa_path va)) of
        Inr result \<Rightarrow>
          Inr (JObj (obj_spread [(''success'', JBool True),
                                 (''timestamp'', JStr (now_iso w))] result))
      | Inl error \<Rightarrow>
          Inr (JObj [(''success'', JBool False),
                     (''operation'', JStr (operation_name (fa_operation va))),
                     (''path'', JStr (fa_path va)),
                     (''error'', JObj [(''message'', JStr (error_message l error)),
                                       (''code'', error_code error)]),
                     (''timestamp'', JStr (now_iso w))]))"
  by (simp add: file_execute_def Let_def)

lemma file_parse_minimal:
  "file_inputSchema_parse (JObj [(''operation'', JStr opn), (''path'', JStr p)]) =
     (case map_of [(''read'', OpRead), (''list'', OpList), (''search'', OpSearch),
                   (''stats'', OpStats)] opn of
        Some ope \<Rightarrow> Inr \<lparr> fa_operation = ope, fa_path = p, fa_pattern = None,
                          fa_recursive = False, fa_max_size = 1048576, fa_encoding = Utf8 \<rparr>
      | None \<Rightarrow> Inl [ZodIssue ''invalid_enum_value'' [''operation''] opn])"
  by (simp add: file_inputSchema_parse_def property_def z_optional_def z_default_def
      issues_of_def Let_def split: option.splits)

lemma allowed_sample_file: "allowed sample_world ''/data/sample.txt'' = Inr True"
  by (simp add: allowed_def sample_world_def isPathAllowed_def allowedPaths_of_def resolve_def
      normalizeString_def normalizeSegments_def normalizeStep_def trim_data)

lemma example_execute_file_info:
  "example_inputSchema_parse args = Inr ea \<Longrightarrow> ea_action ea = FileInfo \<Longrightarrow>
   ea_file_path ea = Some fp \<Longrightarrow> fp \<noteq> [] \<Longrightarrow>
   example_execute l w os args =
     (case handleFileInfo l w fp (ea_include_details ea) of
        Inr result \<Rightarrow>
          Inr (JObj [(''success'', JBool True),
                     (''action'', JStr ''file_info''),
                     (''result'', result),
                     (''metadata'', JObj (obj_spread
                        [(''execution_time_ms'', JNum (of_nat (elapsed_ms w))),
                         (''timestamp'', JStr (now_iso w))]
                        (if ea_include_details ea
                         then [(''input_args'', example_args_json ea),
                               (''environment'', JObj
                                  [(''node_version'', JStr (process_version os)),
                                   (''platform'', JStr (os_platform os)),
                                   (''arch'', JStr (os_arch os))])]
                         else [])))])
      | Inl error \<Rightarrow>
          Inr (JObj [(''success'', JBool False),
                     (''action'', JStr ''file_info''),
                     (''error'', JObj [(''message'', JStr (error_message l error)),
                                       (''type'', JStr (error_constructor_name error))]),
                     (''metadata'', JObj
                        [(''execution_time_ms'', JNum (of_nat (elapsed_ms w))),
                         (''timestamp'', JStr (now_iso w))])]))"
  by (simp add: example_execute_def Let_def split: sum.splits)

text \<open>
  With an empty allow-list the guard still resolves the candidate first: it answers
  \<open>false\<close> when that succeeds and fails when \<open>process.cwd()\<close> does.
\<close>

lemma no_allow_list_allowed:
  "ALLOWED_PATHS w = None \<Longrightarrow>
   allowed w p =
     (if p \<noteq> [] \<and> hd p = CHR ''/'' then Inr False
      else case process_cwd w of Inl e \<Rightarrow> Inl e | Inr c \<Rightarrow> Inr False)"
  by (simp add: allowed_def isPathAllowed_def allowedPaths_of_def resolve_def Let_def
      split: sum.splits)

lemma no_allow_list_not_allowed:
  "ALLOWED_PATHS w = None \<Longrightarrow> (p \<noteq> [] \<and> hd p = CHR ''/'') \<or> (\<exists>c. process_cwd w = Inr c) \<Longrightarrow>
   allowed w p = Inr False"
  by (auto simp add: no_allow_list_allowed)

lemma formatSize_10: "formatSize sample_lib 10 = ''10.00 B''"
  by code_simp

lemma formatSize_50: "formatSize sample_lib 50 = ''50.00 B''"
  by code_simp

subsection \<open>Directory traversal\<close>













section \<open>Properties of the Path Guard\<close>

text \<open>
  Claim C1 asks that a sibling of an allow-list root, obtained by appending a suffix
  without a path separator, is rejected. The guard compares with \<open>startsWith\<close> only and
  has no check of a separator boundary, so the opposite holds: for every root \<open>r\<close> that
  is the only entry of the allow-list and has no white space at its ends, and every
  absolute working directory, \<open>isPathAllowed(r + "-sibling")\<close> is true. With
  \<open>ALLOWED_PATHS=/allowed\<close> the path \<open>/allowed-sibling\<close> is admitted.
\<close>

theorem sibling_is_admitted:
  assumes "allowedPaths_of env = [r]" and "trim r = r"
    and "cwd \<noteq> []" and "hd cwd = CHR ''/''"
  shows "isPathAllowed env (Inr cwd) (r @ ''-sibling'') = Inr True"
proof -
  have "r \<noteq> []"
    using assms(1) by (rule allowedPaths_single)
  then obtain a b where "resolve (Inr cwd) r = Inr a"
      and "resolve (Inr cwd) (r @ ''-sibling'') = Inr b" and "prefix a b"
    using assms(3,4) sibling_resolved by blast
  then show ?thesis
    using assms(1,2) by (simp add: isPathAllowed_def)
qed

theorem sibling_is_admitted_witness:
  "allowedPaths_of (Some ''/allowed'') = [''/allowed''] \<and> trim ''/allowed'' = ''/allowed''
   \<and> isPathAllowed (Some ''/allowed'') (Inr ''/'') ''/allowed-sibling'' = Inr True
   \<and> resolve (Inr ''/'') ''/allowed-sibling'' = Inr ''/allowed-sibling''"
proof -
  have a: "allowedPaths_of (Some ''/allowed'') = [''/allowed'']"
    by (simp add: allowedPaths_of_def)
  have t: "trim ''/allowed'' = ''/allowed''"
    by (rule trim_allowed)
  have r: "resolve (Inr ''/'') ''/allowed-sibling'' = Inr ''/allowed-sibling''"
    by (simp add: resolve_def normalizeString_def normalizeSegments_def normalizeStep_def)
  show ?thesis
    using sibling_is_admitted [OF a t, of "''/''"] a t r
    by simp
qed

text \<open>
  Claim C6 asks that a candidate with \<open>..\<close> segments whose resolved form lies outside
  every root is rejected. The guard does resolve the candidate before it compares, but it
  compares with the bare prefix test of claim C1: with \<open>ALLOWED_PATHS=/e\<close> the candidate
  \<open>/e/../escaped\<close> resolves to \<open>/escaped\<close>, which is neither the root \<open>/e\<close> nor below
  it, and it is admitted.
\<close>

theorem traversal_to_sibling_is_admitted:
  "allowedPaths_of (Some ''/e'') = [''/e'']
   \<and> resolve (Inr ''/'') ''/e'' = Inr ''/e''
   \<and> resolve (Inr ''/'') ''/e/../escaped'' = Inr ''/escaped''
   \<and> ''/escaped'' \<noteq> ''/e''
   \<and> \<not> prefix ''/e/'' ''/escaped''
   \<and> isPathAllowed (Some ''/e'') (Inr ''/'') ''/e/../escaped'' = Inr True"
  by (simp add: isPathAllowed_def allowedPaths_of_def resolve_def normalizeString_def
      normalizeSegments_def normalizeStep_def trim_e)

section \<open>Properties of the dispatcher\<close>

text \<open>
  Claim C5: a call for a tool name that is not in the registry fails with the
  classification \<open>MethodNotFound\<close>, and no handler runs: whatever the handlers of the
  registry would do, the state of the process after the call is the state before it, and
  nothing is logged.
\<close>

theorem callTool_unregistered:
  "map_of tools name = None \<Longrightarrow>
   callTool l tools name args w =
     (Inl (McpError MethodNotFound (''Tool '' @ quoted name @ '' not found'')), w, [])"
  by (simp add: callTool_def)

theorem callTool_unregistered_witness:
  "map_of (server_tools sample_lib) ''no_such_tool'' = None \<and>
   callTool sample_lib (server_tools sample_lib) ''no_such_tool'' (JObj []) sample_state =
     (Inl (McpError MethodNotFound (''Tool '' @ quoted ''no_such_tool'' @ '' not found'')),
      sample_state, [])"
  using callTool_unregistered [of "server_tools sample_lib" "''no_such_tool''" sample_lib
      "JObj []" sample_state]
  by (simp add: map_of_server_tools)

text \<open>
  Claim C3: a call for a registered tool produces exactly one outcome, and it is either the
  response that wraps the handler's result or an \<open>McpError\<close> of code \<open>InternalError\<close>:
  whatever failure the handler raises is caught, and what leaves the dispatcher is the
  re-classified error with the message \<open>Tool execution failed: \<close> followed by the
  failure's message, never the failure itself.
\<close>

theorem callTool_registered:
  "map_of tools name = Some tool \<Longrightarrow>
   fst (callTool l tools name args w) =
     (case fst (tool_execute tool (if falsy args then JObj [] else args) w) of
        Inr result \<Rightarrow>
          Inr (JObj [(''content'', JArr [JObj
            [(''type'', JStr ''text''),
             (''text'', JStr (case result of JStr text \<Rightarrow> text
                              | _ \<Rightarrow> json_stringify l result))]])])
      | Inl error \<Rightarrow>
          Inl (McpError InternalError (''Tool execution failed: '' @ error_message l error)))"
  by (simp add: callTool_def split: prod.splits sum.splits)

theorem callTool_registered_witness:
  "map_of (server_tools sample_lib) ''example_tool'' = Some (exampleTool sample_lib) \<and>
   fst (callTool sample_lib (server_tools sample_lib) ''example_tool'' JUndefined sample_state) =
     Inl (McpError InternalError ''Tool execution failed: invalid_type at action'')"
  using callTool_registered [of "server_tools sample_lib" "''example_tool''"
      "exampleTool sample_lib" sample_lib JUndefined sample_state]
  by (simp add: map_of_server_tools exampleTool_def example_execute_no_action sample_lib_def)

section \<open>Properties of validation\<close>

text \<open>
  Claim C2 asks that a call which omits a required field yields a result with
  \<open>success = false\<close>, classified as a validation error. In the tools the schema is parsed
  before the \<open>try\<close> block, so the \<open>ZodError\<close> leaves \<open>execute\<close>: no result object is
  built, and the dispatcher answers with an \<open>McpError\<close> of code \<open>InternalError\<close>. The issue
  list of the error does name the missing field. This holds for \<open>operation\<close> and \<open>path\<close>
  of the file processor and for \<open>action\<close> of the example tool.
\<close>

theorem missing_required_field_escapes:
  "(map_of kvs ''operation'' = None \<longrightarrow>
      (\<exists>issues. file_execute l w (JObj kvs) = Inl (ZodError issues)
         \<and> ZodIssue ''invalid_type'' [''operation''] ''undefined'' \<in> set issues
         \<and> fst (callTool l (server_tools l) ''file_processor'' (JObj kvs) s) =
             Inl (McpError InternalError (''Tool execution failed: '' @ zod_message l issues))))
   \<and> (map_of kvs ''path'' = None \<longrightarrow>
      (\<exists>issues. file_execute l w (JObj kvs) = Inl (ZodError issues)
         \<and> ZodIssue ''invalid_type'' [''path''] ''undefined'' \<in> set issues))
   \<and> (map_of kvs ''action'' = None \<longrightarrow>
      (\<exists>issues. example_execute l w os (JObj kvs) = Inl (ZodError issues)
         \<and> ZodIssue ''invalid_type'' [''action''] ''undefined'' \<in> set issues))"
  by (auto simp add: file_execute_def file_inputSchema_parse_def example_execute_def
      example_inputSchema_parse_def property_def issues_of_def invalid_type_def Let_def
      callTool_def map_of_server_tools fileProcessorTool_def)

theorem missing_required_field_escapes_witness:
  "map_of ([] :: (string \<times> json) list) ''operation'' = None
   \<and> map_of ([] :: (string \<times> json) list) ''path'' = None
   \<and> map_of ([] :: (string \<times> json) list) ''action'' = None
   \<and> (\<exists>issues. file_execute sample_lib sample_world (JObj []) = Inl (ZodError issues)
         \<and> ZodIssue ''invalid_type'' [''operation''] ''undefined'' \<in> set issues
         \<and> fst (callTool sample_lib (server_tools sample_lib) ''file_processor'' (JObj [])
                  sample_state) =
             Inl (McpError InternalError
                    (''Tool execution failed: '' @ zod_message sample_lib issues)))
   \<and> (\<exists>issues. file_execute sample_lib sample_world (JObj []) = Inl (ZodError issues)
         \<and> ZodIssue ''invalid_type'' [''path''] ''undefined'' \<in> set issues)
   \<and> (\<exists>issues. example_execute sample_lib sample_world sample_os (JObj []) =
           Inl (ZodError issues)
         \<and> ZodIssue ''invalid_type'' [''action''] ''undefined'' \<in> set issues)"
  using missing_required_field_escapes [of "[]" sample_lib sample_world sample_state sample_os]
  by simp

section \<open>Properties of the system information tool\<close>

text \<open>
  Claim C10: the system information tool called with the empty argument object succeeds.
  \<open>category\<close> defaults to \<open>overview\<close> and \<open>detailed\<close> to \<open>false\<close>, the result echoes both,
  and the advertised schema requires no field.
\<close>

theorem sysinfo_defaults:
  "sysinfo_execute l w os (JObj []) =
     Inr (JObj [(''success'', JBool True),
                (''category'', JStr ''overview''),
                (''detailed'', JBool False),
                (''data'', getSystemOverview l os False),
                (''timestamp'', JStr (now_iso w)),
                (''collected_in_ms'', JNum 0)])
   \<and> obj_get (tool_inputSchema (systemInfoTool l)) ''required'' = Some (JArr [])
   \<and> fst (tool_execute (systemInfoTool l) (JObj []) s) =
       sysinfo_execute l (ps_world s) (ps_os s) (JObj [])"
  by (simp add: sysinfo_execute_def sysinfo_inputSchema_parse_def property_def z_default_def
      issues_of_def systemInfoTool_def obj_get_def)

section \<open>Properties of the file processor\<close>

text \<open>
  Claim C4, as amended: for a path inside the allowed roots on which \<open>fs.stat\<close> fails
  with \<open>ENOENT\<close>, the \<open>stats\<close> operation succeeds and reports \<open>exists: false\<close>,
  whereas the \<open>read\<close> operation on the same path returns \<open>success: false\<close> with an
  error object.
\<close>

theorem stats_reports_absence_read_fails:
  assumes "allowed w p = Inr True" and "fs_stat w p = Inl e"
    and "error_code e = JStr ''ENOENT''"
    and "file_inputSchema_parse args_stats = Inr vs" and "fa_operation vs = OpStats"
    and "fa_path vs = p"
    and "file_inputSchema_parse args_read = Inr vr" and "fa_operation vr = OpRead"
    and "fa_path vr = p"
  shows "file_execute l w args_stats =
           Inr (JObj [(''success'', JBool True),
                      (''timestamp'', JStr (now_iso w)),
                      (''operation'', JStr ''stats''),
                      (''path'', JStr p),
                      (''exists'', JBool False),
                      (''error'', JStr ''File or directory not found'')])
         \<and> file_execute l w args_read =
           Inr (JObj [(''success'', JBool False),
                      (''operation'', JStr ''read''),
                      (''path'', JStr p),
                      (''error'', JObj [(''message'', JStr (error_message l e)),
                                        (''code'', JStr ''ENOENT'')]),
                      (''timestamp'', JStr (now_iso w))])"
  using assms
  by (simp add: file_execute_validated getStats_def readFile_def obj_spread_def)

theorem stats_reports_absence_read_fails_witness:
  "file_execute sample_lib sample_world
      (JObj [(''operation'', JStr ''stats''), (''path'', JStr ''/data/none'')]) =
     Inr (JObj [(''success'', JBool True),
                (''timestamp'', JStr ''2024-01-01T00:00:00.000Z''),
                (''operation'', JStr ''stats''),
                (''path'', JStr ''/data/none''),
                (''exists'', JBool False),
                (''error'', JStr ''File or directory not found'')])
   \<and> file_execute sample_lib sample_world
      (JObj [(''operation'', JStr ''read''), (''path'', JStr ''/data/none'')]) =
     Inr (JObj [(''success'', JBool False),
                (''operation'', JStr ''read''),
                (''path'', JStr ''/data/none''),
                (''error'', JObj [(''message'', JStr ''ENOENT: no such file or directory, /data/none''),
                                  (''code'', JStr ''ENOENT'')]),
                (''timestamp'', JStr ''2024-01-01T00:00:00.000Z'')])"
proof -
  have st: "fs_stat sample_world ''/data/none'' = Inl (enoent ''/data/none'')"
    by (simp add: sample_world_def)
  have code: "error_code (enoent ''/data/none'') = JStr ''ENOENT''"
    by (simp add: enoent_def)
  have ps: "file_inputSchema_parse
      (JObj [(''operation'', JStr ''stats''), (''path'', JStr ''/data/none'')])
      = Inr \<lparr> fa_operation = OpStats, fa_path = ''/data/none'', fa_pattern = None,
               fa_recursive = False, fa_max_size = 1048576, fa_encoding = Utf8 \<rparr>"
    by (simp add: file_parse_minimal)
  have pr: "file_inputSchema_parse
      (JObj [(''operation'', JStr ''read''), (''path'', JStr ''/data/none'')])
      = Inr \<lparr> fa_operation = OpRead, fa_path = ''/data/none'', fa_pattern = None,
               fa_recursive = False, fa_max_size = 1048576, fa_encoding = Utf8 \<rparr>"
    by (simp add: file_parse_minimal)
  have "now_iso sample_world = ''2024-01-01T00:00:00.000Z''"
    by (simp add: sample_world_def)
  moreover have "error_message sample_lib (enoent ''/data/none'') =
      ''ENOENT: no such file or directory, /data/none''"
    by (simp add: enoent_def)
  ultimately show ?thesis
    using stats_reports_absence_read_fails [OF allowed_sample_data st code ps _ _ pr, of sample_lib]
    by simp
qed

text \<open>
  The counterexample to claim C4 as stated: the path \<open>/data/sample.txt/none\<close> lies inside
  the allowed root and does not exist, but \<open>fs.stat\<close> fails on it with \<open>ENOTDIR\<close>, which
  \<open>getStats\<close> raises again, so the \<open>stats\<close> operation returns \<open>success: false\<close>.
\<close>

theorem stats_below_file_fails:
  "allowed sample_world ''/data/sample.txt/none'' = Inr True
   \<and> fs_stat sample_world ''/data/sample.txt/none'' = Inl (enotdir ''/data/sample.txt/none'')
   \<and> file_execute sample_lib sample_world
        (JObj [(''operation'', JStr ''stats''), (''path'', JStr ''/data/sample.txt/none'')]) =
      Inr (JObj [(''success'', JBool False),
                 (''operation'', JStr ''stats''),
                 (''path'', JStr ''/data/sample.txt/none''),
                 (''error'', JObj
                    [(''message'', JStr ''ENOTDIR: not a directory, /data/sample.txt/none''),
                     (''code'', JStr ''ENOTDIR'')]),
                 (''timestamp'', JStr ''2024-01-01T00:00:00.000Z'')])"
proof -
  have a: "allowed sample_world ''/data/sample.txt/none'' = Inr True"
    by (simp add: allowed_def sample_world_def isPathAllowed_def allowedPaths_of_def
        resolve_def normalizeString_def normalizeSegments_def normalizeStep_def trim_data)
  have st: "fs_stat sample_world ''/data/sample.txt/none'' = Inl (enotdir ''/data/sample.txt/none'')"
    by (simp add: sample_world_def)
  have p: "file_inputSchema_parse
      (JObj [(''operation'', JStr ''stats''), (''path'', JStr ''/data/sample.txt/none'')])
      = Inr \<lparr> fa_operation = OpStats, fa_path = ''/data/sample.txt/none'', fa_pattern = None,
               fa_recursive = False, fa_max_size = 1048576, fa_encoding = Utf8 \<rparr>"
    by (simp add: file_parse_minimal)
  have n: "now_iso sample_world = ''2024-01-01T00:00:00.000Z''"
    by (simp add: sample_world_def)
  show ?thesis
    using a st n
    by (simp add: file_execute_validated [OF p] getStats_def enotdir_def)
qed

text \<open>
  Claim C7: a \<open>read\<close> of an allowed, existing regular file whose size exceeds \<open>max_size\<close>
  returns \<open>success: false\<close> with a message that contains \<open>exceeds maximum\<close>; the result
  has no \<open>content\<close>. When the arguments give no \<open>max_size\<close>, the limit is 1048576 bytes.
\<close>

theorem read_over_max_size_fails:
  assumes "file_inputSchema_parse args = Inr va" and "fa_operation va = OpRead"
    and "allowed w (fa_path va) = Inr True" and "fs_stat w (fa_path va) = Inr st"
    and "st_isFile st"
    and "of_nat (st_size st) > fa_max_size va"
  shows "file_execute l w args =
           Inr (JObj [(''success'', JBool False),
                      (''operation'', JStr ''read''),
                      (''path'', JStr (fa_path va)),
                      (''error'', JObj
                         [(''message'', JStr (''File size ('' @ formatSize l (of_nat (st_size st))
                             @ '') exceeds maximum allowed size ('' @ formatSize l (fa_max_size va)
                             @ '')'')),
                          (''code'', JUndefined)]),
                      (''timestamp'', JStr (now_iso w))])
         \<and> (\<forall>envelope. file_execute l w args = Inr envelope \<longrightarrow>
                obj_get envelope ''success'' = Some (JBool False)
                \<and> obj_get envelope ''content'' = None)
         \<and> (\<forall>kvs. args = JObj kvs \<and> map_of kvs ''max_size'' = None \<longrightarrow>
                fa_max_size va = 1048576)"
proof -
  have env: "file_execute l w args =
           Inr (JObj [(''success'', JBool False),
                      (''operation'', JStr ''read''),
                      (''path'', JStr (fa_path va)),
                      (''error'', JObj
                         [(''message'', JStr (''File size ('' @ formatSize l (of_nat (st_size st))
                             @ '') exceeds maximum allowed size ('' @ formatSize l (fa_max_size va)
                             @ '')'')),
                          (''code'', JUndefined)]),
                      (''timestamp'', JStr (now_iso w))])"
    using assms by (simp add: file_execute_validated readFile_def)
  have dflt: "fa_max_size va = 1048576" if "args = JObj kvs" "map_of kvs ''max_size'' = None" for kvs
    using assms(1) that
    by (auto simp add: file_inputSchema_parse_def property_def z_default_def Let_def
        split: if_splits)
  show ?thesis
    using env dflt by (simp add: obj_get_def)
qed

theorem read_over_max_size_fails_witness:
  "file_execute sample_lib sample_world
      (JObj [(''operation'', JStr ''read''), (''path'', JStr ''/data/sample.txt''),
             (''max_size'', JNum 10)]) =
     Inr (JObj [(''success'', JBool False),
                (''operation'', JStr ''read''),
                (''path'', JStr ''/data/sample.txt''),
                (''error'', JObj
                   [(''message'', JStr
                       ''File size (50.00 B) exceeds maximum allowed size (10.00 B)''),
                    (''code'', JUndefined)]),
                (''timestamp'', JStr ''2024-01-01T00:00:00.000Z'')])"
proof -
  have p: "file_inputSchema_parse
      (JObj [(''operation'', JStr ''read''), (''path'', JStr ''/data/sample.txt''),
             (''max_size'', JNum 10)])
      = Inr \<lparr> fa_operation = OpRead, fa_path = ''/data/sample.txt'', fa_pattern = None,
               fa_recursive = False, fa_max_size = 10, fa_encoding = Utf8 \<rparr>"
    by (simp add: file_inputSchema_parse_def property_def z_optional_def z_default_def
        issues_of_def Let_def)
  have st: "fs_stat sample_world ''/data/sample.txt'' = Inr sample_file_stats"
    by (simp add: sample_world_def)
  have f: "st_isFile sample_file_stats" and sz: "st_size sample_file_stats = 50"
    by (simp_all add: sample_file_stats_def)
  have n: "now_iso sample_world = ''2024-01-01T00:00:00.000Z''"
    by (simp add: sample_world_def)
  show ?thesis
    using read_over_max_size_fails [OF p, of sample_world sample_file_stats sample_lib]
      allowed_sample_file st f sz n
    by (simp add: formatSize_10 formatSize_50)
qed

text \<open>
  Claim C8, as amended. When \<open>ALLOWED_PATHS\<close> is not set the allow-list is empty, and
  the guard answers \<open>false\<close> for every path that \<open>path.resolve\<close> can resolve: every
  absolute path, and every path at all when \<open>process.cwd()\<close> returns. For such a path
  every validated \<open>read\<close>, \<open>list\<close> and \<open>stats\<close> request, every \<open>search\<close> request with a
  non-empty pattern, and every \<open>file_info\<close> request of the example tool with a non-empty
  \<open>file_path\<close> fails with the access-denied message. (A \<open>search\<close> without a pattern and a
  \<open>file_info\<close> without a path are refused earlier, with their own message, and a relative
  path fails with the error of \<open>process.cwd()\<close> when the working directory is gone, as
  the counterexample below shows.)
\<close>

theorem no_allow_list_denies:
  assumes "ALLOWED_PATHS w = None"
  shows "((p \<noteq> [] \<and> hd p = CHR ''/'') \<or> (\<exists>c. process_cwd w = Inr c)
       \<longrightarrow> allowed w p = Inr False)
    \<and> (file_inputSchema_parse args = Inr va
         \<and> ((fa_path va \<noteq> [] \<and> hd (fa_path va) = CHR ''/'') \<or> (\<exists>c. process_cwd w = Inr c))
         \<and> (fa_operation va = OpSearch \<longrightarrow> (\<exists>pat. fa_pattern va = Some pat \<and> pat \<noteq> []))
       \<longrightarrow> file_execute l w args =
             Inr (JObj [(''success'', JBool False),
                        (''operation'', JStr (operation_name (fa_operation va))),
                        (''path'', JStr (fa_path va)),
                        (''error'', JObj
                           [(''message'', JStr (''Access denied: '' @ fa_path va
                               @ '' is not in an allowed directory'')),
                            (''code'', JUndefined)]),
                        (''timestamp'', JStr (now_iso w))]))
    \<and> (example_inputSchema_parse args' = Inr ea \<and> ea_action ea = FileInfo
         \<and> ea_file_path ea = Some fp \<and> fp \<noteq> []
         \<and> (hd fp = CHR ''/'' \<or> (\<exists>c. process_cwd w = Inr c))
       \<longrightarrow> example_execute l w os args' =
             Inr (JObj [(''success'', JBool False),
                        (''action'', JStr ''file_info''),
                        (''error'', JObj
                           [(''message'', JStr (''Access denied: '' @ fp
                               @ '' is not in an allowed directory'')),
                            (''type'', JStr ''Error'')]),
                        (''metadata'', JObj
                           [(''execution_time_ms'', JNum (of_nat (elapsed_ms w))),
                            (''timestamp'', JStr (now_iso w))])]))"
proof (intro conjI impI)
  assume "(p \<noteq> [] \<and> hd p = CHR ''/'') \<or> (\<exists>c. process_cwd w = Inr c)"
  with assms show "allowed w p = Inr False"
    by (rule no_allow_list_not_allowed)
next
  assume a: "file_inputSchema_parse args = Inr va
     \<and> ((fa_path va \<noteq> [] \<and> hd (fa_path va) = CHR ''/'') \<or> (\<exists>c. process_cwd w = Inr c))
     \<and> (fa_operation va = OpSearch \<longrightarrow> (\<exists>pat. fa_pattern va = Some pat \<and> pat \<noteq> []))"
  then have "(fa_path va \<noteq> [] \<and> hd (fa_path va) = CHR ''/'') \<or> (\<exists>c. process_cwd w = Inr c)"
    by simp
  with assms have na: "allowed w (fa_path va) = Inr False"
    by (rule no_allow_list_not_allowed)
  from a have p: "file_inputSchema_parse args = Inr va"
    by simp
  from a have s: "fa_operation va = OpSearch \<longrightarrow> (\<exists>pat. fa_pattern va = Some pat \<and> pat \<noteq> [])"
    by simp
  show "file_execute l w args =
             Inr (JObj [(''success'', JBool False),
                        (''operation'', JStr (operation_name (fa_operation va))),
                        (''path'', JStr (fa_path va)),
                        (''error'', JObj
                           [(''message'', JStr (''Access denied: '' @ fa_path va
                               @ '' is not in an allowed directory'')),
                            (''code'', JUndefined)]),
                        (''timestamp'', JStr (now_iso w))])"
  proof (cases "fa_operation va")
    case OpRead
    then show ?thesis using na
      by (simp add: file_execute_validated [OF p] readFile_def access_denied_def)
  next
    case OpList
    then show ?thesis using na
      by (simp add: file_execute_validated [OF p] listDirectory_def access_denied_def)
  next
    case OpSearch
    then show ?thesis using s na
      by (auto simp add: file_execute_validated [OF p] searchFiles_def access_denied_def)
  next
    case OpStats
    then show ?thesis using na
      by (simp add: file_execute_validated [OF p] getStats_def access_denied_def)
  qed
next
  assume b: "example_inputSchema_parse args' = Inr ea \<and> ea_action ea = FileInfo
         \<and> ea_file_path ea = Some fp \<and> fp \<noteq> []
         \<and> (hd fp = CHR ''/'' \<or> (\<exists>c. process_cwd w = Inr c))"
  then have "(fp \<noteq> [] \<and> hd fp = CHR ''/'') \<or> (\<exists>c. process_cwd w = Inr c)"
    by auto
  with assms have na: "allowed w fp = Inr False"
    by (rule no_allow_list_not_allowed)
  show "example_execute l w os args' =
             Inr (JObj [(''success'', JBool False),
                        (''action'', JStr ''file_info''),
                        (''error'', JObj
                           [(''message'', JStr (''Access denied: '' @ fp
                               @ '' is not in an allowed directory'')),
                            (''type'', JStr ''Error'')]),
                        (''metadata'', JObj
                           [(''execution_time_ms'', JNum (of_nat (elapsed_ms w))),
                            (''timestamp'', JStr (now_iso w))])])"
    using b na by (simp add: example_execute_file_info handleFileInfo_def access_denied_def)
qed

theorem no_allow_list_denies_witness:
  "ALLOWED_PATHS sample_world_no_env = None
   \<and> allowed sample_world_no_env ''/data/sample.txt'' = Inr False
   \<and> allowed sample_world_no_env ''data/sample.txt'' = Inr False
   \<and> file_execute sample_lib sample_world_no_env
        (JObj [(''operation'', JStr ''read''), (''path'', JStr ''/data/sample.txt'')]) =
      Inr (JObj [(''success'', JBool False),
                 (''operation'', JStr ''read''),
                 (''path'', JStr ''/data/sample.txt''),
                 (''error'', JObj
                    [(''message'', JStr
                        ''Access denied: /data/sample.txt is not in an allowed directory''),
                     (''code'', JUndefined)]),
                 (''timestamp'', JStr ''2024-01-01T00:00:00.000Z'')])
   \<and> example_execute sample_lib sample_world_no_env sample_os
        (JObj [(''action'', JStr ''file_info''), (''file_path'', JStr ''/data/sample.txt'')]) =
      Inr (JObj [(''success'', JBool False),
                 (''action'', JStr ''file_info''),
                 (''error'', JObj
                    [(''message'', JStr
                        ''Access denied: /data/sample.txt is not in an allowed directory''),
                     (''type'', JStr ''Error'')]),
                 (''metadata'', JObj
                    [(''execution_time_ms'', JNum 1),
                     (''timestamp'', JStr ''2024-01-01T00:00:00.000Z'')])])"
proof -
  have e: "ALLOWED_PATHS sample_world_no_env = None"
    by (simp add: sample_world_no_env_def)
  have c: "process_cwd sample_world_no_env = Inr ''/''"
    by (simp add: sample_world_no_env_def sample_world_def)
  have pf: "file_inputSchema_parse
      (JObj [(''operation'', JStr ''read''), (''path'', JStr ''/data/sample.txt'')])
      = Inr \<lparr> fa_operation = OpRead, fa_path = ''/data/sample.txt'', fa_pattern = None,
               fa_recursive = False, fa_max_size = 1048576, fa_encoding = Utf8 \<rparr>"
    by (simp add: file_parse_minimal)
  have pe: "example_inputSchema_parse
      (JObj [(''action'', JStr ''file_info''), (''file_path'', JStr ''/data/sample.txt'')])
      = Inr \<lparr> ea_action = FileInfo, ea_message = None, ea_file_path = Some ''/data/sample.txt'',
               ea_include_details = False \<rparr>"
    by (simp add: example_inputSchema_parse_def property_def z_optional_def z_default_def
        issues_of_def Let_def)
  have n: "now_iso sample_world_no_env = ''2024-01-01T00:00:00.000Z''"
    "elapsed_ms sample_world_no_env = 1"
    by (simp_all add: sample_world_no_env_def sample_world_def)
  have rel: "allowed sample_world_no_env ''data/sample.txt'' = Inr False"
    using no_allow_list_denies [OF e, of "''data/sample.txt''"] c
    by simp
  show ?thesis
    using no_allow_list_denies [OF e, of "''/data/sample.txt''"
        "JObj [(''operation'', JStr ''read''), (''path'', JStr ''/data/sample.txt'')]"
        "\<lparr> fa_operation = OpRead, fa_path = ''/data/sample.txt'', fa_pattern = None,
               fa_recursive = False, fa_max_size = 1048576, fa_encoding = Utf8 \<rparr>"
        sample_lib
        "JObj [(''action'', JStr ''file_info''), (''file_path'', JStr ''/data/sample.txt'')]"
        "\<lparr> ea_action = FileInfo, ea_message = None, ea_file_path = Some ''/data/sample.txt'',
               ea_include_details = False \<rparr>"
        "''/data/sample.txt''" sample_os]
      e pf pe n rel
    by simp
qed

text \<open>
  The counterexamples to claim C8 as stated, both with \<open>ALLOWED_PATHS\<close> not set. A
  \<open>search\<close> request that gives no pattern fails with
  \<open>pattern is required for search operation\<close>, not with an access-denied failure. And
  when the working directory is gone, the guard does not return \<open>false\<close> for the relative
  path \<open>data\<close>: \<open>path.resolve\<close> raises the \<open>ENOENT\<close> of \<open>process.cwd()\<close>, and the \<open>read\<close>
  request fails with that error.
\<close>

theorem no_allow_list_other_failures:
  "ALLOWED_PATHS sample_world_no_env = None
   \<and> file_execute sample_lib sample_world_no_env
        (JObj [(''operation'', JStr ''search''), (''path'', JStr ''/data'')]) =
      Inr (JObj [(''success'', JBool False),
                 (''operation'', JStr ''search''),
                 (''path'', JStr ''/data''),
                 (''error'', JObj
                    [(''message'', JStr ''pattern is required for search operation''),
                     (''code'', JUndefined)]),
                 (''timestamp'', JStr ''2024-01-01T00:00:00.000Z'')])
   \<and> ALLOWED_PATHS sample_world_no_cwd = None
   \<and> allowed sample_world_no_cwd ''data'' =
        Inl (SystemError ''ENOENT'' ''ENOENT: no such file or directory, uv_cwd'')
   \<and> file_execute sample_lib sample_world_no_cwd
        (JObj [(''operation'', JStr ''read''), (''path'', JStr ''data'')]) =
      Inr (JObj [(''success'', JBool False),
                 (''operation'', JStr ''read''),
                 (''path'', JStr ''data''),
                 (''error'', JObj
                    [(''message'', JStr ''ENOENT: no such file or directory, uv_cwd''),
                     (''code'', JStr ''ENOENT'')]),
                 (''timestamp'', JStr ''2024-01-01T00:00:00.000Z'')])"
proof -
  have s: "file_execute sample_lib sample_world_no_env
        (JObj [(''operation'', JStr ''search''), (''path'', JStr ''/data'')]) =
      Inr (JObj [(''success'', JBool False),
                 (''operation'', JStr ''search''),
                 (''path'', JStr ''/data''),
                 (''error'', JObj
                    [(''message'', JStr ''pattern is required for search operation''),
                     (''code'', JUndefined)]),
                 (''timestamp'', JStr ''2024-01-01T00:00:00.000Z'')])"
    by (simp add: file_execute_validated [OF file_parse_minimal [of "''search''" "''/data''", simplified]]
        sample_world_no_env_def sample_world_def)
  have e: "ALLOWED_PATHS sample_world_no_cwd = None"
    by (simp add: sample_world_no_cwd_def sample_world_no_env_def)
  have c: "process_cwd sample_world_no_cwd =
      Inl (SystemError ''ENOENT'' ''ENOENT: no such file or directory, uv_cwd'')"
    by (simp add: sample_world_no_cwd_def)
  have a: "allowed sample_world_no_cwd ''data'' =
      Inl (SystemError ''ENOENT'' ''ENOENT: no such file or directory, uv_cwd'')"
    by (simp add: no_allow_list_allowed [OF e] c)
  have n: "now_iso sample_world_no_cwd = ''2024-01-01T00:00:00.000Z''"
    by (simp add: sample_world_no_cwd_def sample_world_no_env_def sample_world_def)
  have r: "file_execute sample_lib sample_world_no_cwd
        (JObj [(''operation'', JStr ''read''), (''path'', JStr ''data'')]) =
      Inr (JObj [(''success'', JBool False),
                 (''operation'', JStr ''read''),
                 (''path'', JStr ''data''),
                 (''error'', JObj
                    [(''message'', JStr ''ENOENT: no such file or directory, uv_cwd''),
                     (''code'', JStr ''ENOENT'')]),
                 (''timestamp'', JStr ''2024-01-01T00:00:00.000Z'')])"
    by (simp add: file_execute_validated [OF file_parse_minimal [of "''read''" "''data''", simplified]]
        readFile_def a n)
  show ?thesis
    using s e a r by (simp add: sample_world_no_env_def)
qed

section \<open>Properties of the directory traversal\<close>



end
